theory Spec2Isabelle
  imports Complex_Main "HOL-Library.AList"
begin

section \<open>Data model of the tuning driver (python/tvm/meta_schedule/tune.py)\<close>

text \<open>
  The driver is dynamically typed: every override it receives is an arbitrary Python
  value that it inspects with \<^verbatim>\<open>is None\<close>, \<^verbatim>\<open>isinstance\<close> and \<^verbatim>\<open>callable\<close>. The values are
  modelled by one universe \<open>pyval\<close>. Objects of the collaborator classes carry the base
  class that \<^verbatim>\<open>isinstance\<close> is asked about, the name of their constructor and its keyword
  arguments.
\<close>

datatype attr_val = AttrStr string | AttrBool bool

text \<open>A PrimFunc: its attribute dictionary and its (opaque) parameters and body.\<close>

record prim_func =
  pf_attrs :: "(string \<times> attr_val) list"
  pf_body :: nat

text \<open>An IRModule: its functions keyed by the name of their global variable.\<close>

type_synonym ir_module = "(string \<times> prim_func) list"

text \<open>A Target: \<^verbatim>\<open>target.kind.name\<close> and the remaining options.\<close>

record target =
  kind_name :: string
  target_options :: string

datatype cls =
    Builder | Runner | Database | CostModel | FeatureExtractor | MeasureCallback
  | SpaceGenerator | ScheduleRule | Postproc | Mutator | TaskScheduler | SearchStrategy
  | ReuseType | SearchConfig | ExecutorFactoryModule

datatype pyval =
    PyNone
  | PyBool bool
  | PyInt int
  | PyFloat rat
  | PyStr string
  | PyList "pyval list"
  | PyTuple "pyval list"
  | PyDict "(pyval \<times> pyval) list"
  | PyObj cls string "(string \<times> pyval) list"
  | PyCallable nat pyval
  | PyPrimFunc prim_func
  | PyIRModule ir_module
  | PyTarget target

text \<open>
  \<open>PyObj c name kwargs\<close> is an object built by the constructor \<open>name\<close> of a subclass of
  \<open>c\<close>, so \<^verbatim>\<open>isinstance\<close> holds of it for the class \<open>c\<close> and for no other class of \<open>cls\<close>:
  \<^verbatim>\<open>LocalBuilder()\<close> is \<open>PyObj Builder ''LocalBuilder'' []\<close>.
  \<open>PyCallable n v\<close> is a callable object that takes exactly \<open>n\<close> positional arguments and
  returns \<open>v\<close>; calling it with another number of arguments is Python's own TypeError.
  Objects of the collaborator classes are not callable.
\<close>

fun isinstance :: "pyval \<Rightarrow> cls \<Rightarrow> bool" where
  "isinstance (PyObj c name kwargs) c' = (c = c')"
| "isinstance v c' = False"

fun callable :: "pyval \<Rightarrow> bool" where
  "callable (PyCallable n v) = True"
| "callable v = False"

datatype error =
    TypeError string pyval
      \<comment> \<open>"Expected `<parameter>` to be ..., but gets: <value>"\<close>
  | TypeError_item string nat pyval
      \<comment> \<open>"Expected `<parameter>` to be ..., but <parameter>[<i>] is: <value>"\<close>
  | TypeError_call pyval nat
      \<comment> \<open>a callable called with a number of arguments it does not take\<close>
  | ValueError_unpack nat
      \<comment> \<open>unpacking a sequence of that many values into a one-element tuple\<close>
  | ValueError_unsupported_target target
      \<comment> \<open>"Unsupported target: <target>"\<close>
  | AssertionError string
  | ExternalError string
      \<comment> \<open>raised inside a collaborator\<close>

fun call :: "pyval \<Rightarrow> nat \<Rightarrow> error + pyval" where
  "call (PyCallable n v) k = (if k = n then Inr v else Inl (TypeError_call (PyCallable n v) k))"
| "call v k = Inl (TypeError_call v k)"

text \<open>A TuneContext, with the fields the driver passes to its constructor.\<close>

record tune_context =
  tc_mod :: ir_module
  tc_target :: target
  tc_space_generator :: pyval
  tc_search_strategy :: pyval
  tc_sch_rules :: pyval
  tc_postprocs :: pyval
  tc_mutator_probs :: pyval
  tc_task_name :: string
  tc_rand_state :: int
  tc_num_threads :: pyval

text \<open>What \<^verbatim>\<open>Parse._tune_context\<close> may receive as \<^verbatim>\<open>tune_context\<close>.\<close>

datatype tune_context_arg = NoContext | Context tune_context | NotContext pyval

text \<open>An extracted task of \<^verbatim>\<open>extract_task_from_relay\<close>.\<close>

record extracted_task =
  et_task_name :: string
  et_dispatched :: "pyval list"

text \<open>
  The task scheduler \<^verbatim>\<open>Parse._task_scheduler\<close> returns: the default round-robin scheduler
  over the arguments, what the user's factory returned for these arguments, or the
  user's instance.
\<close>

record scheduler_args =
  sa_tasks :: "tune_context list"
  sa_builder :: pyval
  sa_runner :: pyval
  sa_database :: pyval
  sa_cost_model :: pyval
  sa_measure_callbacks :: "pyval list"

datatype task_scheduler =
    RoundRobin scheduler_args
  | FromFactory pyval scheduler_args
  | UserScheduler pyval

record tuning_record =
  tr_trace :: nat
  tr_run_secs :: rat

text \<open>\<^verbatim>\<open>Schedule(mod)\<close> with the traces applied to it so far.\<close>

record schedule =
  sch_mod :: ir_module
  sch_applied :: "nat list"

subsection \<open>The collaborators outside the file\<close>

text \<open>
  Everything the driver calls but does not define is a parameter: the attribute update
  of a PrimFunc, structural hashing and equality, the Target constructor, strategy
  creation, task extraction, lowering of tensors, the scheduler's run, the record
  store's top-k query for the committed workload of a module, the application of a
  record's trace to a fresh schedule, the cost model's save and the downstream build.
  A collaborator that returns \<open>error option\<close> returns nothing: \<open>None\<close> is its normal
  return, \<open>Some e\<close> the exception it raised.
\<close>

record ext =
  with_attr :: "prim_func \<Rightarrow> string \<Rightarrow> attr_val \<Rightarrow> prim_func"
  structural_hash :: "ir_module \<Rightarrow> int"
  structural_equal :: "ir_module \<Rightarrow> ir_module \<Rightarrow> bool"
  Target_of_str :: "string \<Rightarrow> error + target"
  create_strategy :: "pyval \<Rightarrow> error + pyval"
  create_prim_func :: "pyval \<Rightarrow> error + prim_func"
  extract_task_from_relay :: "pyval \<Rightarrow> pyval \<Rightarrow> pyval \<Rightarrow> error + extracted_task list"
  scheduler_tune :: "task_scheduler \<Rightarrow> error option"
  get_top_k :: "pyval \<Rightarrow> ir_module \<Rightarrow> nat \<Rightarrow> error + tuning_record list"
  apply_to_schedule :: "tuning_record \<Rightarrow> ir_module \<Rightarrow> error option"
  cost_model_save :: "task_scheduler \<Rightarrow> string \<Rightarrow> error option"
  relay_build :: "pyval \<Rightarrow> target \<Rightarrow> pyval \<Rightarrow> pyval \<Rightarrow> error + pyval"

subsection \<open>Effects\<close>

text \<open>
  The driver logs, runs the scheduler, commits a workload, saves the cost model and
  builds. A run is the list of these events in order, with the value returned or the
  exception raised.
\<close>

datatype event =
    Log_working_directory string
  | Log_creating_JSONDatabase string string
  | Log_before_deduplication nat
  | Log_after_deduplication nat
  | Tune task_scheduler
  | Commit_workload pyval ir_module
  | Cost_model_save task_scheduler string
  | Relay_build pyval target pyval pyval

type_synonym 'a io = "event list \<times> (error + 'a)"

definition bind_io :: "'a io \<Rightarrow> ('a \<Rightarrow> 'b io) \<Rightarrow> 'b io" where
  "bind_io m f =
     (case m of
        (es, Inl e) \<Rightarrow> (es, Inl e)
      | (es, Inr x) \<Rightarrow> (case f x of (es', r) \<Rightarrow> (es @ es', r)))"

definition return_io :: "'a \<Rightarrow> 'a io" where
  "return_io x = ([], Inr x)"

definition pure_io :: "error + 'a \<Rightarrow> 'a io" where
  "pure_io r = ([], r)"

definition emit :: "event \<Rightarrow> unit io" where
  "emit e = ([e], Inr ())"

section \<open>Parse: tuning configuration from user inputs\<close>

subsection \<open>Parse._mod\<close>

text \<open>
  A global variable is identified with its name, so \<^verbatim>\<open>get_global_vars\<close> returns the names
  and \<^verbatim>\<open>func_name != "main"\<close> compares names. Unpacking \<^verbatim>\<open>(func_name,) = func_names\<close> raises
  unless there is exactly one name. The lookup \<^verbatim>\<open>mod[func_name]\<close> of the one name of the
  module cannot fail; its failure branch is there only because the lookup is partial.
\<close>

definition get_global_vars :: "ir_module \<Rightarrow> string list" where
  "get_global_vars m = map fst m"

definition IRModule_main :: "prim_func \<Rightarrow> ir_module" where
  "IRModule_main f = [(''main'', f)]"

definition Parse_mod :: "ext \<Rightarrow> pyval \<Rightarrow> error + ir_module" where
  "Parse_mod x m =
     (let m1 = (case m of
                  PyPrimFunc f \<Rightarrow>
                    PyIRModule (IRModule_main
                      (with_attr x (with_attr x f ''global_symbol'' (AttrStr ''main''))
                         ''tir.noalias'' (AttrBool True)))
                | _ \<Rightarrow> m)
      in case m1 of
           PyIRModule funcs \<Rightarrow>
             (let func_names = get_global_vars funcs
              in case func_names of
                   [func_name] \<Rightarrow>
                     if length func_names = 1 \<and> func_name \<noteq> ''main''
                     then (case map_of funcs func_name of
                             Some f \<Rightarrow> Inr (IRModule_main f)
                           | None \<Rightarrow> Inl (ExternalError ''lookup''))
                     else Inr funcs
                 | _ \<Rightarrow> Inl (ValueError_unpack (length func_names)))
         | _ \<Rightarrow> Inl (TypeError ''mod'' m1))"

subsection \<open>Errors threaded through a sequence of calls\<close>

definition bind_err :: "error + 'a \<Rightarrow> ('a \<Rightarrow> error + 'b) \<Rightarrow> error + 'b" where
  "bind_err r f = (case r of Inl e \<Rightarrow> Inl e | Inr v \<Rightarrow> f v)"

subsection \<open>Parse._target\<close>

definition Parse_target :: "ext \<Rightarrow> pyval \<Rightarrow> error + target" where
  "Parse_target x target =
     (case target of
        PyStr s \<Rightarrow> Target_of_str x s
      | PyTarget t \<Rightarrow> Inr t
      | _ \<Rightarrow> Inl (TypeError ''target'' target))"

subsection \<open>Parse._builder, Parse._runner\<close>

definition LocalBuilder :: pyval where
  "LocalBuilder = PyObj Builder ''LocalBuilder'' []"

definition LocalRunner :: pyval where
  "LocalRunner = PyObj Runner ''LocalRunner'' []"

definition Parse_builder :: "pyval \<Rightarrow> error + pyval" where
  "Parse_builder builder =
     (let builder1 = (if builder = PyNone then LocalBuilder else builder)
      in if \<not> isinstance builder1 Builder then Inl (TypeError ''builder'' builder1)
         else Inr builder1)"

definition Parse_runner :: "pyval \<Rightarrow> error + pyval" where
  "Parse_runner runner =
     (let runner1 = (if runner = PyNone then LocalRunner else runner)
      in if \<not> isinstance runner1 Runner then Inl (TypeError ''runner'' runner1)
         else Inr runner1)"

subsection \<open>Parse._database\<close>

text \<open>\<^verbatim>\<open>os.path.join\<close> of two components, as \<^verbatim>\<open>posixpath\<close> defines it.\<close>

definition os_path_join :: "string \<Rightarrow> string \<Rightarrow> string" where
  "os_path_join a b =
     (if take 1 b = ''/'' then b
      else if a = [] \<or> take 1 (rev a) = ''/'' then a @ b
      else a @ ''/'' @ b)"

definition JSONDatabase :: "string \<Rightarrow> string \<Rightarrow> pyval" where
  "JSONDatabase path_workload path_tuning_record =
     PyObj Database ''JSONDatabase''
       [(''path_workload'', PyStr path_workload),
        (''path_tuning_record'', PyStr path_tuning_record)]"

definition Parse_database :: "pyval \<Rightarrow> string \<Rightarrow> string \<Rightarrow> pyval io" where
  "Parse_database database task_name path =
     bind_io
       (if database = PyNone
        then (let path_workload = os_path_join path (task_name @ ''_database_workload.json'');
                  path_tuning_record =
                    os_path_join path (task_name @ ''_database_tuning_record.json'')
              in bind_io (emit (Log_creating_JSONDatabase path_workload path_tuning_record))
                   (\<lambda>_. return_io (JSONDatabase path_workload path_tuning_record)))
        else return_io database)
       (\<lambda>database1.
          if \<not> isinstance database1 Database
          then pure_io (Inl (TypeError ''database'' database1))
          else return_io database1)"

subsection \<open>Parse._callbacks\<close>

definition default_measure_callbacks :: "pyval list" where
  "default_measure_callbacks =
     [PyObj MeasureCallback ''AddToDatabase'' [],
      PyObj MeasureCallback ''RemoveBuildArtifact'' [],
      PyObj MeasureCallback ''EchoStatistics'' [],
      PyObj MeasureCallback ''UpdateCostModel'' []]"

fun check_callbacks :: "nat \<Rightarrow> pyval list \<Rightarrow> error option" where
  "check_callbacks i [] = None"
| "check_callbacks i (callback # rest) =
     (if \<not> isinstance callback MeasureCallback
      then Some (TypeError_item ''measure_callbacks'' i callback)
      else check_callbacks (Suc i) rest)"

definition Parse_callbacks :: "pyval \<Rightarrow> error + pyval list" where
  "Parse_callbacks measure_callbacks =
     (if measure_callbacks = PyNone then Inr default_measure_callbacks
      else case measure_callbacks of
             PyList cs \<Rightarrow>
               (case check_callbacks 0 cs of Some e \<Rightarrow> Inl e | None \<Rightarrow> Inr cs)
           | PyTuple cs \<Rightarrow>
               (case check_callbacks 0 cs of Some e \<Rightarrow> Inl e | None \<Rightarrow> Inr cs)
           | _ \<Rightarrow> Inl (TypeError ''measure_callbacks'' measure_callbacks))"

subsection \<open>Parse._cost_model\<close>

definition PerStoreFeature :: pyval where
  "PerStoreFeature = PyObj FeatureExtractor ''PerStoreFeature'' []"

definition XGBModel :: "pyval \<Rightarrow> pyval" where
  "XGBModel extractor = PyObj CostModel ''XGBModel'' [(''extractor'', extractor)]"

definition Parse_cost_model :: "pyval \<Rightarrow> error + pyval" where
  "Parse_cost_model cost_model =
     (if cost_model = PyNone then Inr (XGBModel PerStoreFeature)
      else if \<not> isinstance cost_model CostModel then Inl (TypeError ''cost_model'' cost_model)
      else Inr cost_model)"

subsection \<open>Parse._space_generator\<close>

definition PostOrderApply :: pyval where
  "PostOrderApply = PyObj SpaceGenerator ''PostOrderApply'' []"

definition Parse_space_generator :: "pyval \<Rightarrow> error + pyval" where
  "Parse_space_generator space_generator =
     (if space_generator = PyNone then Inr PostOrderApply
      else bind_err
             (if callable space_generator then call space_generator 0
              else Inr space_generator)
             (\<lambda>space_generator1.
                if \<not> isinstance space_generator1 SpaceGenerator
                then Inl (TypeError ''space_generator'' space_generator1)
                else Inr space_generator1))"

subsection \<open>The default profiles: DefaultLLVM and DefaultCUDA\<close>

definition DefaultLLVM_sch_rules :: pyval where
  "DefaultLLVM_sch_rules =
     PyList
      [PyObj ScheduleRule ''AutoInline''
         [(''into_producer'', PyBool False),
          (''into_consumer'', PyBool True),
          (''inline_const_tensor'', PyBool True),
          (''disallow_if_then_else'', PyBool True),
          (''require_injective'', PyBool True),
          (''require_ordered'', PyBool True),
          (''disallow_op'', PyList [PyStr ''tir.exp''])],
       PyObj ScheduleRule ''AddRFactor''
         [(''max_jobs_per_core'', PyInt 16), (''max_innermost_factor'', PyInt 64)],
       PyObj ScheduleRule ''MultiLevelTiling''
         [(''structure'', PyStr ''SSRSRS''),
          (''tile_binds'', PyNone),
          (''max_innermost_factor'', PyInt 64),
          (''vector_load_lens'', PyNone),
          (''reuse_read'', PyNone),
          (''reuse_write'',
             PyObj ReuseType ''ReuseType''
               [(''req'', PyStr ''may''),
                (''levels'', PyList [PyInt 1, PyInt 2]),
                (''scope'', PyStr ''global'')])],
       PyObj ScheduleRule ''ParallelizeVectorizeUnroll''
         [(''max_jobs_per_core'', PyInt 16),
          (''max_vectorize_extent'', PyInt 64),
          (''unroll_max_steps'', PyList [PyInt 0, PyInt 16, PyInt 64, PyInt 512]),
          (''unroll_explicit'', PyBool True)],
       PyObj ScheduleRule ''RandomComputeLocation'' []]"

definition DefaultLLVM_postproc :: pyval where
  "DefaultLLVM_postproc =
     PyList
      [PyObj Postproc ''DisallowDynamicLoop'' [],
       PyObj Postproc ''RewriteParallelVectorizeUnroll'' [],
       PyObj Postproc ''RewriteReductionBlock'' []]"

definition DefaultLLVM_mutator_probs :: pyval where
  "DefaultLLVM_mutator_probs =
     PyDict
      [(PyObj Mutator ''MutateComputeLocation'' [], PyFloat (5 / 100)),
       (PyObj Mutator ''MutateUnroll'' [], PyFloat (3 / 100))]"

definition DefaultCUDA_sch_rules :: pyval where
  "DefaultCUDA_sch_rules =
     PyList
      [PyObj ScheduleRule ''MultiLevelTiling''
         [(''structure'', PyStr ''SSSRRSRS''),
          (''tile_binds'',
             PyList [PyStr ''blockIdx.x'', PyStr ''vthread.x'', PyStr ''threadIdx.x'']),
          (''max_innermost_factor'', PyInt 64),
          (''vector_load_lens'', PyList [PyInt 1, PyInt 2, PyInt 3, PyInt 4]),
          (''reuse_read'',
             PyObj ReuseType ''ReuseType''
               [(''req'', PyStr ''must''),
                (''levels'', PyList [PyInt 4]),
                (''scope'', PyStr ''shared'')]),
          (''reuse_write'',
             PyObj ReuseType ''ReuseType''
               [(''req'', PyStr ''must''),
                (''levels'', PyList [PyInt 3]),
                (''scope'', PyStr ''local'')])],
       PyObj ScheduleRule ''AutoInline''
         [(''into_producer'', PyBool True),
          (''into_consumer'', PyBool True),
          (''inline_const_tensor'', PyBool True),
          (''disallow_if_then_else'', PyBool False),
          (''require_injective'', PyBool False),
          (''require_ordered'', PyBool False),
          (''disallow_op'', PyNone)],
       PyObj ScheduleRule ''CrossThreadReduction''
         [(''thread_extents'',
             PyList [PyInt 4, PyInt 8, PyInt 16, PyInt 32, PyInt 64, PyInt 128, PyInt 256,
                     PyInt 512])],
       PyObj ScheduleRule ''ParallelizeVectorizeUnroll''
         [(''max_jobs_per_core'', PyInt (- 1)),
          (''max_vectorize_extent'', PyInt (- 1)),
          (''unroll_max_steps'',
             PyList [PyInt 0, PyInt 16, PyInt 64, PyInt 512, PyInt 1024]),
          (''unroll_explicit'', PyBool True)]]"

definition DefaultCUDA_postproc :: pyval where
  "DefaultCUDA_postproc =
     PyList
      [PyObj Postproc ''DisallowDynamicLoop'' [],
       PyObj Postproc ''RewriteUnboundBlock'' [],
       PyObj Postproc ''RewriteParallelVectorizeUnroll'' [],
       PyObj Postproc ''RewriteReductionBlock'' [],
       PyObj Postproc ''VerifyGPUCode'' []]"

definition DefaultCUDA_mutator_probs :: pyval where
  "DefaultCUDA_mutator_probs =
     PyDict [(PyObj Mutator ''MutateUnroll'' [], PyFloat (1 / 10))]"

subsection \<open>Parse._sch_rules, Parse._postproc, Parse._mutator_probs\<close>

definition Parse_sch_rules :: "pyval \<Rightarrow> target \<Rightarrow> error + pyval" where
  "Parse_sch_rules sch_rules target =
     (if callable sch_rules then call sch_rules 0
      else if sch_rules \<noteq> PyNone then Inl (TypeError ''sch_rules'' sch_rules)
      else if kind_name target = ''llvm'' then Inr DefaultLLVM_sch_rules
      else if kind_name target = ''cuda'' then Inr DefaultCUDA_sch_rules
      else Inl (ValueError_unsupported_target target))"

definition Parse_postproc :: "pyval \<Rightarrow> target \<Rightarrow> error + pyval" where
  "Parse_postproc postproc target =
     (if callable postproc then call postproc 0
      else if postproc \<noteq> PyNone then Inl (TypeError ''postproc'' postproc)
      else if kind_name target = ''llvm'' then Inr DefaultLLVM_postproc
      else if kind_name target = ''cuda'' then Inr DefaultCUDA_postproc
      else Inl (ValueError_unsupported_target target))"

definition Parse_mutator_probs :: "pyval \<Rightarrow> target \<Rightarrow> error + pyval" where
  "Parse_mutator_probs mutator_probs target =
     (if callable mutator_probs then call mutator_probs 0
      else if mutator_probs \<noteq> PyNone then Inl (TypeError ''mutator_probs'' mutator_probs)
      else if kind_name target = ''llvm'' then Inr DefaultLLVM_mutator_probs
      else if kind_name target = ''cuda'' then Inr DefaultCUDA_mutator_probs
      else Inl (ValueError_unsupported_target target))"

subsection \<open>Parse._tune_context\<close>

text \<open>
  The keyword arguments of the TuneContext constructor are evaluated in the order they
  are written: space generator, search strategy, rewrite rules, post-processors,
  mutator weights.
\<close>

definition Parse_tune_context ::
  "ext \<Rightarrow> tune_context_arg \<Rightarrow> ir_module \<Rightarrow> target \<Rightarrow> pyval \<Rightarrow> string \<Rightarrow>
   pyval \<Rightarrow> pyval \<Rightarrow> pyval \<Rightarrow> pyval \<Rightarrow> pyval \<Rightarrow> error + tune_context" where
  "Parse_tune_context x tune_context irmod target config task_name
       space_generator sch_rules postprocs mutator_probs num_threads =
     (case tune_context of
        NoContext \<Rightarrow>
          bind_err (Parse_space_generator space_generator) (\<lambda>space_generator1.
          bind_err (create_strategy x config) (\<lambda>search_strategy1.
          bind_err (Parse_sch_rules sch_rules target) (\<lambda>sch_rules1.
          bind_err (Parse_postproc postprocs target) (\<lambda>postprocs1.
          bind_err (Parse_mutator_probs mutator_probs target) (\<lambda>mutator_probs1.
            Inr \<lparr>tc_mod = irmod,
                 tc_target = target,
                 tc_space_generator = space_generator1,
                 tc_search_strategy = search_strategy1,
                 tc_sch_rules = sch_rules1,
                 tc_postprocs = postprocs1,
                 tc_mutator_probs = mutator_probs1,
                 tc_task_name = task_name,
                 tc_rand_state = - 1,
                 tc_num_threads = num_threads\<rparr>)))))
      | NotContext v \<Rightarrow> Inl (TypeError ''tune_context'' v)
      | Context tc \<Rightarrow> Inr tc)"

subsection \<open>Parse._task_scheduler\<close>

definition Parse_task_scheduler ::
  "pyval \<Rightarrow> tune_context list \<Rightarrow> pyval \<Rightarrow> pyval \<Rightarrow> pyval \<Rightarrow> pyval \<Rightarrow> pyval list \<Rightarrow>
   error + task_scheduler" where
  "Parse_task_scheduler task_scheduler tasks builder runner database cost_model
       measure_callbacks =
     (let args = \<lparr>sa_tasks = tasks, sa_builder = builder, sa_runner = runner,
                  sa_database = database, sa_cost_model = cost_model,
                  sa_measure_callbacks = measure_callbacks\<rparr>
      in if task_scheduler = PyNone then Inr (RoundRobin args)
         else if callable task_scheduler
         then bind_err (call task_scheduler 6) (\<lambda>made. Inr (FromFactory made args))
         else if \<not> isinstance task_scheduler TaskScheduler
         then Inl (TypeError ''task_scheduler'' task_scheduler)
         else Inr (UserScheduler task_scheduler))"

section \<open>The entry points\<close>

definition run_external :: "event \<Rightarrow> error option \<Rightarrow> unit io" where
  "run_external e outcome =
     bind_io (emit e) (\<lambda>_. case outcome of None \<Rightarrow> return_io () | Some err \<Rightarrow> pure_io (Inl err))"

subsection \<open>tune_tir\<close>

definition tune_tir ::
  "ext \<Rightarrow> pyval \<Rightarrow> pyval \<Rightarrow> pyval \<Rightarrow> string \<Rightarrow> string \<Rightarrow> pyval \<Rightarrow> pyval \<Rightarrow> pyval \<Rightarrow>
   pyval \<Rightarrow> pyval \<Rightarrow> pyval \<Rightarrow> pyval \<Rightarrow> pyval \<Rightarrow> pyval \<Rightarrow> pyval \<Rightarrow> pyval \<Rightarrow>
   schedule option io" where
  "tune_tir x irmod target config work_dir task_name builder runner database cost_model
       measure_callbacks task_scheduler space sch_rules postprocs mutator_probs num_threads =
     bind_io (emit (Log_working_directory work_dir)) (\<lambda>_.
     bind_io (pure_io (Parse_mod x irmod)) (\<lambda>irmod1.
     bind_io (Parse_database database task_name work_dir) (\<lambda>database1.
     bind_io (pure_io (Parse_target x target)) (\<lambda>target1.
     bind_io (pure_io (Parse_tune_context x NoContext irmod1 target1 config task_name
                         space sch_rules postprocs mutator_probs num_threads))
       (\<lambda>tune_context.
     bind_io (pure_io (Parse_builder builder)) (\<lambda>builder1.
     bind_io (pure_io (Parse_runner runner)) (\<lambda>runner1.
     bind_io (pure_io (Parse_cost_model cost_model)) (\<lambda>cost_model1.
     bind_io (pure_io (Parse_callbacks measure_callbacks)) (\<lambda>measure_callbacks1.
     bind_io (pure_io (Parse_task_scheduler task_scheduler [tune_context] builder1 runner1
                         database1 cost_model1 measure_callbacks1))
       (\<lambda>task_scheduler1.
     bind_io (run_external (Tune task_scheduler1) (scheduler_tune x task_scheduler1)) (\<lambda>_.
     bind_io (emit (Commit_workload database1 irmod1)) (\<lambda>_.
     bind_io (pure_io (get_top_k x database1 irmod1 1)) (\<lambda>bests.
       case bests of
         [] \<Rightarrow> return_io None
       | [best] \<Rightarrow>
           bind_io (pure_io (case apply_to_schedule x best irmod1 of
                               None \<Rightarrow> Inr () | Some err \<Rightarrow> Inl err)) (\<lambda>_.
           bind_io (run_external
                      (Cost_model_save task_scheduler1
                         (os_path_join work_dir (task_name @ ''.xgb'')))
                      (cost_model_save x task_scheduler1
                         (os_path_join work_dir (task_name @ ''.xgb'')))) (\<lambda>_.
             return_io (Some \<lparr>sch_mod = irmod1, sch_applied = [tr_trace best]\<rparr>)))
       | _ \<Rightarrow> pure_io (Inl (AssertionError ''len(bests) == 1'')))))))))))))))"

subsection \<open>tune_te\<close>

definition tune_te ::
  "ext \<Rightarrow> pyval \<Rightarrow> pyval \<Rightarrow> pyval \<Rightarrow> string \<Rightarrow> string \<Rightarrow> pyval \<Rightarrow> pyval \<Rightarrow> pyval \<Rightarrow>
   pyval \<Rightarrow> pyval \<Rightarrow> pyval \<Rightarrow> pyval \<Rightarrow> pyval \<Rightarrow> pyval \<Rightarrow> pyval \<Rightarrow> pyval \<Rightarrow>
   schedule option io" where
  "tune_te x tensors target config work_dir task_name builder runner database cost_model
       measure_callbacks task_scheduler space sch_rules postprocs mutator_probs num_threads =
     bind_io (pure_io (create_prim_func x tensors)) (\<lambda>f.
       tune_tir x (PyPrimFunc f) target config work_dir task_name builder runner database
         cost_model measure_callbacks task_scheduler space sch_rules postprocs
         mutator_probs num_threads)"

subsection \<open>tune_relay\<close>

text \<open>The loop that parses the tuning contexts; \<open>tune_contexts\<close> is the list built so far.\<close>

fun parse_tune_contexts ::
  "ext \<Rightarrow> tune_context list \<Rightarrow> extracted_task list \<Rightarrow> target \<Rightarrow> pyval \<Rightarrow>
   pyval \<Rightarrow> pyval \<Rightarrow> pyval \<Rightarrow> pyval \<Rightarrow> pyval \<Rightarrow> error + tune_context list" where
  "parse_tune_contexts x tune_contexts [] target config
       space sch_rules postprocs mutator_probs num_threads = Inr tune_contexts"
| "parse_tune_contexts x tune_contexts (task # rest) target config
       space sch_rules postprocs mutator_probs num_threads =
     (case et_dispatched task of
        [dispatched] \<Rightarrow>
          bind_err (Parse_mod x dispatched) (\<lambda>irmod1.
          bind_err (Parse_tune_context x NoContext irmod1 target config (et_task_name task)
                      space sch_rules postprocs mutator_probs num_threads) (\<lambda>tune_context.
            parse_tune_contexts x (tune_contexts @ [tune_context]) rest target config
              space sch_rules postprocs mutator_probs num_threads))
      | _ \<Rightarrow>
          Inl (AssertionError ''Only size 1 dispatched task list is supported for now''))"

text \<open>
  The deduplication loop. \<open>later\<close> is \<^verbatim>\<open>tune_contexts[i + 1 :]\<close>, the contexts after the
  current one; \<open>later_equal\<close> is the inner loop that sets \<open>flag\<close>.
\<close>

fun later_equal :: "ext \<Rightarrow> tune_context \<Rightarrow> tune_context list \<Rightarrow> bool" where
  "later_equal x task [] = False"
| "later_equal x task (other_task # rest) =
     (if structural_equal x (tc_mod task) (tc_mod other_task) then True
      else later_equal x task rest)"

fun deduplication_loop ::
  "ext \<Rightarrow> tune_context list \<Rightarrow> int list \<Rightarrow> tune_context list \<Rightarrow> tune_context list" where
  "deduplication_loop x tasks hashs [] = tasks"
| "deduplication_loop x tasks hashs (task # later) =
     (let struct_hash = structural_hash x (tc_mod task);
          flag = (if struct_hash \<in> set hashs then later_equal x task later else False)
      in if \<not> flag
         then deduplication_loop x (tasks @ [task]) (hashs @ [struct_hash]) later
         else deduplication_loop x tasks hashs later)"

definition deduplication :: "ext \<Rightarrow> tune_context list \<Rightarrow> tune_context list" where
  "deduplication x tune_contexts = deduplication_loop x [] [] tune_contexts"

definition tune_relay ::
  "ext \<Rightarrow> pyval \<Rightarrow> pyval \<Rightarrow> pyval \<Rightarrow> string \<Rightarrow> pyval \<Rightarrow> string \<Rightarrow> pyval \<Rightarrow> pyval \<Rightarrow>
   pyval \<Rightarrow> pyval \<Rightarrow> pyval \<Rightarrow> pyval \<Rightarrow> pyval \<Rightarrow> pyval \<Rightarrow> pyval \<Rightarrow> pyval \<Rightarrow> pyval \<Rightarrow>
   pyval io" where
  "tune_relay x irmod target config work_dir params task_name builder runner database
       cost_model measure_callbacks task_scheduler space sch_rules postprocs mutator_probs
       num_threads =
     bind_io (emit (Log_working_directory work_dir)) (\<lambda>_.
     bind_io (pure_io (extract_task_from_relay x irmod target params)) (\<lambda>extracted_tasks.
     bind_io (pure_io (Parse_target x target)) (\<lambda>target1.
     bind_io (Parse_database database task_name work_dir) (\<lambda>database1.
     bind_io (pure_io (parse_tune_contexts x [] extracted_tasks target1 config
                         space sch_rules postprocs mutator_probs num_threads))
       (\<lambda>tune_contexts.
     bind_io (emit (Log_before_deduplication (length tune_contexts))) (\<lambda>_.
     bind_io (return_io (deduplication x tune_contexts)) (\<lambda>tasks.
     bind_io (emit (Log_after_deduplication (length tasks))) (\<lambda>_.
     bind_io (pure_io (Parse_builder builder)) (\<lambda>builder1.
     bind_io (pure_io (Parse_runner runner)) (\<lambda>runner1.
     bind_io (pure_io (Parse_cost_model cost_model)) (\<lambda>cost_model1.
     bind_io (pure_io (Parse_callbacks measure_callbacks)) (\<lambda>measure_callbacks1.
     bind_io (pure_io (Parse_task_scheduler task_scheduler tasks builder1 runner1
                         database1 cost_model1 measure_callbacks1))
       (\<lambda>task_scheduler1.
     bind_io (run_external (Tune task_scheduler1) (scheduler_tune x task_scheduler1)) (\<lambda>_.
     bind_io (emit (Relay_build irmod target1 params database1)) (\<lambda>_.
       pure_io (relay_build x irmod target1 params database1))))))))))))))))"

section \<open>Observations on a run\<close>

text \<open>
  What a run shows from outside: the schedulers whose \<^verbatim>\<open>tune()\<close> was called and the tasks
  they were given, the workloads committed to the record store, the paths the cost
  model was saved to, and the task counts the deduplication step logged.
\<close>

fun scheduler_tasks :: "task_scheduler \<Rightarrow> tune_context list" where
  "scheduler_tasks (RoundRobin args) = sa_tasks args"
| "scheduler_tasks (FromFactory made args) = sa_tasks args"
| "scheduler_tasks (UserScheduler s) = []"

fun tuned :: "event list \<Rightarrow> task_scheduler list" where
  "tuned [] = []"
| "tuned (Tune s # es) = s # tuned es"
| "tuned (e # es) = tuned es"

fun committed :: "event list \<Rightarrow> (pyval \<times> ir_module) list" where
  "committed [] = []"
| "committed (Commit_workload d m # es) = (d, m) # committed es"
| "committed (e # es) = committed es"

fun saved_paths :: "event list \<Rightarrow> string list" where
  "saved_paths [] = []"
| "saved_paths (Cost_model_save s path # es) = path # saved_paths es"
| "saved_paths (e # es) = saved_paths es"

fun reported_counts :: "event list \<Rightarrow> nat list" where
  "reported_counts [] = []"
| "reported_counts (Log_before_deduplication n # es) = n # reported_counts es"
| "reported_counts (Log_after_deduplication n # es) = n # reported_counts es"
| "reported_counts (e # es) = reported_counts es"

definition quiet :: "event list \<Rightarrow> bool" where
  "quiet es \<longleftrightarrow> tuned es = [] \<and> committed es = [] \<and> saved_paths es = []"

section \<open>The entry points in stages\<close>

text \<open>
  For the proofs the entry points are cut into stages: the resolution of the builder,
  runner, cost model, callbacks and scheduler followed by the scheduler's run, which
  \<^verbatim>\<open>tune_tir\<close> and \<^verbatim>\<open>tune_relay\<close> share, and the steps of \<^verbatim>\<open>tune_tir\<close> after the run. The lemmas
  \<open>tune_tir_unfold\<close> and \<open>tune_relay_unfold\<close> below show that the entry points are these
  stages in sequence.
\<close>

definition prepend :: "event list \<Rightarrow> 'a io \<Rightarrow> 'a io" where
  "prepend es m = (es @ fst m, snd m)"

definition schedule_and_tune ::
  "ext \<Rightarrow> pyval \<Rightarrow> tune_context list \<Rightarrow> pyval \<Rightarrow> pyval \<Rightarrow> pyval \<Rightarrow> pyval \<Rightarrow> pyval \<Rightarrow>
   (task_scheduler \<Rightarrow> 'a io) \<Rightarrow> 'a io" where
  "schedule_and_tune x task_scheduler tasks builder runner database1 cost_model
       measure_callbacks f =
     bind_io (pure_io (Parse_builder builder)) (\<lambda>builder1.
     bind_io (pure_io (Parse_runner runner)) (\<lambda>runner1.
     bind_io (pure_io (Parse_cost_model cost_model)) (\<lambda>cost_model1.
     bind_io (pure_io (Parse_callbacks measure_callbacks)) (\<lambda>measure_callbacks1.
     bind_io (pure_io (Parse_task_scheduler task_scheduler tasks builder1 runner1
                         database1 cost_model1 measure_callbacks1))
       (\<lambda>task_scheduler1.
     bind_io (run_external (Tune task_scheduler1) (scheduler_tune x task_scheduler1)) (\<lambda>_.
       f task_scheduler1))))))"

definition tune_tir_result ::
  "ext \<Rightarrow> string \<Rightarrow> string \<Rightarrow> ir_module \<Rightarrow> pyval \<Rightarrow> task_scheduler \<Rightarrow> schedule option io" where
  "tune_tir_result x work_dir task_name irmod1 database1 task_scheduler1 =
     bind_io (emit (Commit_workload database1 irmod1)) (\<lambda>_.
     bind_io (pure_io (get_top_k x database1 irmod1 1)) (\<lambda>bests.
       case bests of
         [] \<Rightarrow> return_io None
       | [best] \<Rightarrow>
           bind_io (pure_io (case apply_to_schedule x best irmod1 of
                               None \<Rightarrow> Inr () | Some err \<Rightarrow> Inl err)) (\<lambda>_.
           bind_io (run_external
                      (Cost_model_save task_scheduler1
                         (os_path_join work_dir (task_name @ ''.xgb'')))
                      (cost_model_save x task_scheduler1
                         (os_path_join work_dir (task_name @ ''.xgb'')))) (\<lambda>_.
             return_io (Some \<lparr>sch_mod = irmod1, sch_applied = [tr_trace best]\<rparr>)))
       | _ \<Rightarrow> pure_io (Inl (AssertionError ''len(bests) == 1''))))"

section \<open>Sample collaborators\<close>

text \<open>
  One concrete choice of the collaborators, on which runs of the driver are evaluated:
  attributes are updated in place in the dictionary, programs are structurally equal
  when they are the same and are hashed by the sum of their bodies, a target string
  starts with its kind, a whole model is the list of its kernels, the scheduler runs
  to completion and the record store stays empty.
\<close>

definition sample_ext :: ext where
  "sample_ext =
     \<lparr>with_attr = (\<lambda>f k v. f\<lparr>pf_attrs := AList.update k v (pf_attrs f)\<rparr>),
      structural_hash = (\<lambda>m. sum_list (map (\<lambda>p. int (pf_body (snd p))) m)),
      structural_equal = (\<lambda>m m'. m = m'),
      Target_of_str =
        (\<lambda>s. Inr \<lparr>kind_name = takeWhile (\<lambda>c. c \<noteq> CHR '' '') s,
                     target_options = dropWhile (\<lambda>c. c \<noteq> CHR '' '') s\<rparr>),
      create_strategy = (\<lambda>config. Inr (PyObj SearchStrategy ''SearchStrategy'' [])),
      create_prim_func = (\<lambda>tensors. Inr \<lparr>pf_attrs = [], pf_body = 0\<rparr>),
      extract_task_from_relay =
        (\<lambda>m target params.
           case m of
             PyList kernels \<Rightarrow>
               Inr (map (\<lambda>k. \<lparr>et_task_name = ''task'', et_dispatched = [k]\<rparr>) kernels)
           | _ \<Rightarrow> Inr []),
      scheduler_tune = (\<lambda>s. None),
      get_top_k = (\<lambda>database m k. Inr []),
      apply_to_schedule = (\<lambda>best m. None),
      cost_model_save = (\<lambda>s path. None),
      relay_build =
        (\<lambda>m target params database.
           Inr (PyObj ExecutorFactoryModule ''ExecutorFactoryModule'' []))\<rparr>"

text \<open>The same collaborators with a record store that holds one record for every workload.\<close>

definition sample_ext_with_record :: ext where
  "sample_ext_with_record =
     sample_ext\<lparr>get_top_k :=
       (\<lambda>database m k. Inr [\<lparr>tr_trace = 7, tr_run_secs = 1 / 2\<rparr>])\<rparr>"

definition kernel :: "nat \<Rightarrow> prim_func" where
  "kernel n = \<lparr>pf_attrs = [], pf_body = n\<rparr>"

definition sample_config :: pyval where
  "sample_config = PyObj SearchConfig ''ReplayTraceConfig'' []"

definition sample_database :: pyval where
  "sample_database =
     JSONDatabase ''work/main_database_workload.json''
       ''work/main_database_tuning_record.json''"

text \<open>
  The context the driver builds for the program \<open>kernel n\<close> on the target \<open>llvm\<close> when
  nothing is overridden.
\<close>

definition sample_context :: "string \<Rightarrow> nat \<Rightarrow> tune_context" where
  "sample_context name n =
     \<lparr>tc_mod = [(''main'', kernel n)],
      tc_target = \<lparr>kind_name = ''llvm'', target_options = ''''\<rparr>,
      tc_space_generator = PostOrderApply,
      tc_search_strategy = PyObj SearchStrategy ''SearchStrategy'' [],
      tc_sch_rules = DefaultLLVM_sch_rules,
      tc_postprocs = DefaultLLVM_postproc,
      tc_mutator_probs = DefaultLLVM_mutator_probs,
      tc_task_name = name,
      tc_rand_state = - 1,
      tc_num_threads = PyNone\<rparr>"

text \<open>
  Sample runs: the single-program entry point on a module with the one function \<open>add\<close>,
  the tensor entry point, and the whole-model entry point on a model of five kernels
  of which the first two are the same program under two names.
\<close>

definition sample_tune_tir :: "ext \<Rightarrow> schedule option io" where
  "sample_tune_tir x =
     tune_tir x (PyIRModule [(''add'', kernel 1)]) (PyStr ''llvm'') sample_config
       ''work'' ''main'' PyNone PyNone PyNone PyNone PyNone PyNone PyNone PyNone PyNone
       PyNone PyNone"

definition sample_tune_te :: "ext \<Rightarrow> schedule option io" where
  "sample_tune_te x =
     tune_te x (PyList []) (PyStr ''llvm'') sample_config
       ''work'' ''main'' PyNone PyNone PyNone PyNone PyNone PyNone PyNone PyNone PyNone
       PyNone PyNone"

definition sample_model :: pyval where
  "sample_model =
     PyList [PyIRModule [(''dense_1'', kernel 1)], PyIRModule [(''dense_2'', kernel 1)],
             PyIRModule [(''conv'', kernel 2)], PyIRModule [(''relu'', kernel 3)],
             PyIRModule [(''pool'', kernel 4)]]"

definition sample_tune_relay :: "ext \<Rightarrow> pyval io" where
  "sample_tune_relay x =
     tune_relay x sample_model (PyStr ''llvm'') sample_config ''work'' PyNone ''main''
       PyNone PyNone PyNone PyNone PyNone PyNone PyNone PyNone PyNone PyNone PyNone"

definition sample_scheduler :: "tune_context list \<Rightarrow> task_scheduler" where
  "sample_scheduler tasks =
     RoundRobin
       \<lparr>sa_tasks = tasks, sa_builder = LocalBuilder, sa_runner = LocalRunner,
        sa_database = sample_database, sa_cost_model = XGBModel PerStoreFeature,
        sa_measure_callbacks = default_measure_callbacks\<rparr>"

section \<open>Properties\<close>

subsection \<open>Program normalization\<close>

lemma Parse_mod_PrimFunc:
  "Parse_mod x (PyPrimFunc f) =
     Inr [(''main'', with_attr x (with_attr x f ''global_symbol'' (AttrStr ''main''))
                       ''tir.noalias'' (AttrBool True))]"
  by (simp add: Parse_mod_def IRModule_main_def get_global_vars_def)

lemma Parse_mod_single:
  "Parse_mod x (PyIRModule [(name, f)]) = Inr [(''main'', f)]"
  by (simp add: Parse_mod_def IRModule_main_def get_global_vars_def)

lemma Parse_mod_many:
  "length funcs \<noteq> 1 \<Longrightarrow>
     Parse_mod x (PyIRModule funcs) = Inl (ValueError_unpack (length funcs))"
  by (cases funcs; cases "tl funcs")
     (auto simp: Parse_mod_def get_global_vars_def)

lemma Parse_mod_Inr_single:
  assumes "Parse_mod x v = Inr m"
  shows "\<exists>f. m = [(''main'', f)]"
proof (cases v)
  case (PyPrimFunc f)
  with assms show ?thesis by (auto simp: Parse_mod_PrimFunc)
next
  case (PyIRModule funcs)
  show ?thesis
  proof (cases "length funcs = 1")
    case True
    then obtain name f where "funcs = [(name, f)]"
      by (cases funcs) auto
    with assms PyIRModule show ?thesis by (auto simp: Parse_mod_single)
  next
    case False
    with assms PyIRModule show ?thesis by (simp add: Parse_mod_many)
  qed
qed (use assms in \<open>auto simp: Parse_mod_def\<close>)

text \<open>
  C4: normalization wraps a bare PrimFunc as the sole entry \<open>main\<close> of a new module,
  whatever name the unit carried, and a module with one entry comes back with that
  entry under the name \<open>main\<close>, whatever its name was.
\<close>

theorem Parse_mod_canonical_name:
  "Parse_mod x (PyPrimFunc f) =
     Inr [(''main'', with_attr x (with_attr x f ''global_symbol'' (AttrStr ''main''))
                       ''tir.noalias'' (AttrBool True))] \<and>
   get_global_vars
     [(''main'', with_attr x (with_attr x f ''global_symbol'' (AttrStr ''main''))
                   ''tir.noalias'' (AttrBool True))] = [''main''] \<and>
   Parse_mod x (PyIRModule [(name, g)]) = Inr [(''main'', g)]"
  by (simp add: Parse_mod_PrimFunc Parse_mod_single get_global_vars_def)

text \<open>
  With the sample collaborators, a PrimFunc that carries the name \<open>fused_add\<close> comes back
  as the entry \<open>main\<close> with its \<open>global_symbol\<close> overwritten.
\<close>

lemma Parse_mod_sample_renamed:
  "Parse_mod sample_ext
     (PyPrimFunc \<lparr>pf_attrs = [(''global_symbol'', AttrStr ''fused_add'')], pf_body = 1\<rparr>) =
   Inr [(''main'',
         \<lparr>pf_attrs = [(''global_symbol'', AttrStr ''main''), (''tir.noalias'', AttrBool True)],
          pf_body = 1\<rparr>)]"
  by (simp add: Parse_mod_PrimFunc sample_ext_def)

text \<open>
  C9: normalization accepts only single-entry modules. On a module with more than one
  global function the unpacking of the list of global variables raises, and whenever
  normalization returns a module, that module has exactly one entry.
\<close>

theorem Parse_mod_single_entry_only:
  "(1 < length funcs \<longrightarrow>
      Parse_mod x (PyIRModule funcs) = Inl (ValueError_unpack (length funcs))) \<and>
   (Parse_mod x v = Inr m \<longrightarrow> length (get_global_vars m) = 1)"
proof (intro conjI impI)
  assume "1 < length funcs"
  then show "Parse_mod x (PyIRModule funcs) = Inl (ValueError_unpack (length funcs))"
    by (simp add: Parse_mod_many)
next
  assume "Parse_mod x v = Inr m"
  then obtain f where "m = [(''main'', f)]"
    using Parse_mod_Inr_single by blast
  then show "length (get_global_vars m) = 1"
    by (simp add: get_global_vars_def)
qed

theorem Parse_mod_single_entry_only_witness:
  "1 < length [(''add'', kernel 1), (''mul'', kernel 2)] \<and>
   Parse_mod sample_ext (PyIRModule [(''add'', kernel 1), (''mul'', kernel 2)]) =
     Inl (ValueError_unpack 2) \<and>
   Parse_mod sample_ext (PyIRModule [(''add'', kernel 1)]) = Inr [(''main'', kernel 1)] \<and>
   length (get_global_vars [(''main'', kernel 1)]) = 1"
  using Parse_mod_single_entry_only
          [of "[(''add'', kernel 1), (''mul'', kernel 2)]" sample_ext
              "PyIRModule [(''add'', kernel 1)]" "[(''main'', kernel 1)]"]
  by (simp add: Parse_mod_single)

subsection \<open>Deduplication\<close>

lemma deduplication_loop_append:
  "deduplication_loop x (ts @ tasks) hashs cs = ts @ deduplication_loop x tasks hashs cs"
  by (induction cs arbitrary: tasks hashs) (simp_all add: Let_def)

lemma deduplication_loop_Cons:
  "deduplication_loop x [] hashs (task # later) =
     (if structural_hash x (tc_mod task) \<in> set hashs \<and> later_equal x task later
      then deduplication_loop x [] hashs later
      else task # deduplication_loop x [] (hashs @ [structural_hash x (tc_mod task)]) later)"
  using deduplication_loop_append [of x "[task]" "[]"]
  by (simp add: Let_def)

lemma later_equal_iff:
  "later_equal x task later \<longleftrightarrow>
     (\<exists>other_task \<in> set later. structural_equal x (tc_mod task) (tc_mod other_task))"
  by (induction later) auto

lemma set_deduplication_loop:
  "set (deduplication_loop x [] hashs cs) \<subseteq> set cs"
proof (induction cs arbitrary: hashs)
  case Nil
  show ?case by simp
next
  case (Cons c cs)
  show ?case
    unfolding deduplication_loop_Cons
    using Cons.IH by (auto simp del: deduplication_loop.simps)
qed

lemma deduplication_loop_idem:
  "set hashs' \<subseteq> set hashs \<Longrightarrow>
     deduplication_loop x [] hashs' (deduplication_loop x [] hashs cs) =
     deduplication_loop x [] hashs cs"
proof (induction cs arbitrary: hashs hashs')
  case Nil
  show ?case by simp
next
  case (Cons c cs)
  let ?h = "structural_hash x (tc_mod c)"
  show ?case
  proof (cases "?h \<in> set hashs \<and> later_equal x c cs")
    case True
    then have "deduplication_loop x [] hashs (c # cs) = deduplication_loop x [] hashs cs"
      by (simp add: deduplication_loop_Cons del: deduplication_loop.simps)
    then show ?thesis
      using Cons.IH [OF Cons.prems] by simp
  next
    case False
    let ?kept = "deduplication_loop x [] (hashs @ [?h]) cs"
    have step: "deduplication_loop x [] hashs (c # cs) = c # ?kept"
      using False by (auto simp add: deduplication_loop_Cons simp del: deduplication_loop.simps)
    have keep: "\<not> (?h \<in> set hashs' \<and> later_equal x c ?kept)"
      using False Cons.prems set_deduplication_loop [of x "hashs @ [?h]" cs]
      by (auto simp: later_equal_iff)
    have sub: "set (hashs' @ [?h]) \<subseteq> set (hashs @ [?h])"
      using Cons.prems by auto
    have "deduplication_loop x [] hashs' (c # ?kept) =
            c # deduplication_loop x [] (hashs' @ [?h]) ?kept"
      using keep by (auto simp add: deduplication_loop_Cons simp del: deduplication_loop.simps)
    also have "\<dots> = c # ?kept"
      using Cons.IH [OF sub] by simp
    finally show ?thesis
      by (simp only: step)
  qed
qed

text \<open>
  C3: the deduplication step is idempotent: run on its own output, it returns that
  output unchanged.
\<close>

theorem deduplication_idempotent:
  "deduplication x (deduplication x tune_contexts) = deduplication x tune_contexts"
  unfolding deduplication_def by (rule deduplication_loop_idem) simp

text \<open>
  C2 does not hold of the code. The loop looks for a structurally equal context among
  the contexts after the current one, not among those already accepted, so the later
  copy of a duplicated program is always kept: on \<open>[A, B, A', C]\<close> with \<open>A\<close> and \<open>A'\<close>
  structurally equal and \<open>B\<close>, \<open>C\<close> different from everything else, the code returns all
  four contexts, whatever the structural hash is, where C2 says \<open>[A, B, C]\<close>.
\<close>

theorem deduplication_keeps_later_copy:
  assumes "structural_equal x (tc_mod a) (tc_mod a')"
    and "\<not> structural_equal x (tc_mod b) (tc_mod a')"
    and "\<not> structural_equal x (tc_mod b) (tc_mod c)"
    and "\<not> structural_equal x (tc_mod a') (tc_mod c)"
  shows "deduplication x [a, b, a', c] = [a, b, a', c]"
  using assms by (simp add: deduplication_def Let_def)

theorem deduplication_keeps_later_copy_witness:
  "structural_equal sample_ext (tc_mod (sample_context ''A'' 1))
     (tc_mod (sample_context ''A2'' 1)) \<and>
   \<not> structural_equal sample_ext (tc_mod (sample_context ''B'' 2))
       (tc_mod (sample_context ''A2'' 1)) \<and>
   \<not> structural_equal sample_ext (tc_mod (sample_context ''B'' 2))
       (tc_mod (sample_context ''C'' 3)) \<and>
   \<not> structural_equal sample_ext (tc_mod (sample_context ''A2'' 1))
       (tc_mod (sample_context ''C'' 3)) \<and>
   deduplication sample_ext
     [sample_context ''A'' 1, sample_context ''B'' 2, sample_context ''A2'' 1,
      sample_context ''C'' 3] =
     [sample_context ''A'' 1, sample_context ''B'' 2, sample_context ''A2'' 1,
      sample_context ''C'' 3]"
proof -
  have eq: "structural_equal sample_ext (tc_mod (sample_context ''A'' 1))
     (tc_mod (sample_context ''A2'' 1))"
    by (simp add: sample_ext_def sample_context_def)
  have ne1: "\<not> structural_equal sample_ext (tc_mod (sample_context ''B'' 2))
       (tc_mod (sample_context ''A2'' 1))"
    by (simp add: sample_ext_def sample_context_def kernel_def)
  have ne2: "\<not> structural_equal sample_ext (tc_mod (sample_context ''B'' 2))
       (tc_mod (sample_context ''C'' 3))"
    by (simp add: sample_ext_def sample_context_def kernel_def)
  have ne3: "\<not> structural_equal sample_ext (tc_mod (sample_context ''A2'' 1))
       (tc_mod (sample_context ''C'' 3))"
    by (simp add: sample_ext_def sample_context_def kernel_def)
  from deduplication_keeps_later_copy [OF eq ne1 ne2 ne3] eq ne1 ne2 ne3
  show ?thesis by simp
qed

subsection \<open>Evaluating runs\<close>

lemmas run_defs =
  bind_io_def pure_io_def return_io_def emit_def run_external_def bind_err_def Let_def
  Parse_target_def Parse_database_def Parse_mod_def Parse_tune_context_def
  Parse_space_generator_def Parse_sch_rules_def Parse_postproc_def Parse_mutator_probs_def
  Parse_builder_def Parse_runner_def Parse_cost_model_def Parse_callbacks_def
  Parse_task_scheduler_def deduplication_def get_global_vars_def IRModule_main_def
  os_path_join_def sample_config_def LocalBuilder_def LocalRunner_def XGBModel_def
  PerStoreFeature_def JSONDatabase_def PostOrderApply_def

lemma sample_tune_tir_run:
  "sample_tune_tir sample_ext =
     ([Log_working_directory ''work'',
       Log_creating_JSONDatabase ''work/main_database_workload.json''
         ''work/main_database_tuning_record.json'',
       Tune (sample_scheduler [sample_context ''main'' 1]),
       Commit_workload sample_database [(''main'', kernel 1)]],
      Inr None)"
  by (simp add: sample_tune_tir_def tune_tir_def sample_ext_def run_defs
        sample_scheduler_def sample_context_def sample_database_def)

lemma sample_tune_tir_run_with_record:
  "sample_tune_tir sample_ext_with_record =
     ([Log_working_directory ''work'',
       Log_creating_JSONDatabase ''work/main_database_workload.json''
         ''work/main_database_tuning_record.json'',
       Tune (sample_scheduler [sample_context ''main'' 1]),
       Commit_workload sample_database [(''main'', kernel 1)],
       Cost_model_save (sample_scheduler [sample_context ''main'' 1]) ''work/main.xgb''],
      Inr (Some \<lparr>sch_mod = [(''main'', kernel 1)], sch_applied = [7]\<rparr>))"
  by (simp add: sample_tune_tir_def tune_tir_def sample_ext_with_record_def sample_ext_def
        run_defs sample_scheduler_def sample_context_def sample_database_def)

lemma sample_tune_relay_run:
  "sample_tune_relay sample_ext =
     ([Log_working_directory ''work'',
       Log_creating_JSONDatabase ''work/main_database_workload.json''
         ''work/main_database_tuning_record.json'',
       Log_before_deduplication 5,
       Log_after_deduplication 5,
       Tune (sample_scheduler
         [sample_context ''task'' 1, sample_context ''task'' 1, sample_context ''task'' 2,
          sample_context ''task'' 3, sample_context ''task'' 4]),
       Relay_build sample_model \<lparr>kind_name = ''llvm'', target_options = ''''\<rparr> PyNone
         sample_database],
      Inr (PyObj ExecutorFactoryModule ''ExecutorFactoryModule'' []))"
  by (simp add: sample_tune_relay_def tune_relay_def sample_ext_def run_defs sample_model_def
        sample_scheduler_def sample_context_def sample_database_def kernel_def)

text \<open>
  C1 does not hold of the code, by the same defect as C2. On a whole model of five
  kernels of which the first two are the same program, the deduplication step reports
  5 tasks before and 5 after, and the scheduler is run on all five contexts, two of
  them with structurally equal programs; C1 says 5 and 4, and four tasks.
\<close>

theorem tune_relay_schedules_both_copies:
  "reported_counts (fst (sample_tune_relay sample_ext)) = [5, 5] \<and>
   map tc_mod (concat (map scheduler_tasks (tuned (fst (sample_tune_relay sample_ext))))) =
     [[(''main'', kernel 1)], [(''main'', kernel 1)], [(''main'', kernel 2)],
      [(''main'', kernel 3)], [(''main'', kernel 4)]] \<and>
   structural_equal sample_ext [(''main'', kernel 1)] [(''main'', kernel 1)]"
  by (simp add: sample_tune_relay_run sample_scheduler_def sample_context_def)
     (simp add: sample_ext_def)

subsection \<open>Sequencing of effects\<close>

lemma fst_prepend [simp]: "fst (prepend es m) = es @ fst m"
  by (simp add: prepend_def)

lemma snd_prepend [simp]: "snd (prepend es m) = snd m"
  by (simp add: prepend_def)

lemma prepend_Nil [simp]: "prepend [] m = m"
  by (simp add: prepend_def)

lemma prepend_prepend [simp]: "prepend es (prepend es' m) = prepend (es @ es') m"
  by (simp add: prepend_def)

lemma prepend_pair [simp]: "prepend es (es', r) = (es @ es', r)"
  by (simp add: prepend_def)

lemma bind_io_Inl: "bind_io (es, Inl e) f = (es, Inl e)"
  by (simp add: bind_io_def)

lemma bind_io_Inr: "bind_io (es, Inr v) f = prepend es (f v)"
  by (simp add: bind_io_def prepend_def split: prod.splits)

lemma bind_io_pure: "bind_io (pure_io r) f = (case r of Inl e \<Rightarrow> ([], Inl e) | Inr v \<Rightarrow> f v)"
  by (simp add: bind_io_def pure_io_def split: sum.splits prod.splits)

lemma bind_io_emit: "bind_io (emit e) f = prepend [e] (f ())"
  by (simp add: bind_io_def emit_def prepend_def split: prod.splits)

lemma bind_io_return: "bind_io (return_io v) f = f v"
  by (simp add: bind_io_def return_io_def split: prod.splits)

lemma bind_io_run_external:
  "bind_io (run_external e outcome) f =
     (case outcome of None \<Rightarrow> prepend [e] (f ()) | Some err \<Rightarrow> ([e], Inl err))"
  by (simp add: run_external_def bind_io_def emit_def return_io_def pure_io_def prepend_def
           split: option.splits prod.splits)

lemmas bind_io_simps = bind_io_Inl bind_io_Inr bind_io_pure bind_io_emit bind_io_return
  bind_io_run_external

lemma pure_io_Inl: "pure_io (Inl e) = ([], Inl e)"
  by (simp add: pure_io_def)

lemma fst_pure_io: "fst (pure_io r) = []"
  by (simp add: pure_io_def)

lemma saved_paths_append: "saved_paths (es @ es') = saved_paths es @ saved_paths es'"
  by (induction es rule: saved_paths.induct) simp_all

lemma tuned_append: "tuned (es @ es') = tuned es @ tuned es'"
  by (induction es rule: tuned.induct) simp_all

lemma committed_append: "committed (es @ es') = committed es @ committed es'"
  by (induction es rule: committed.induct) simp_all

lemma Tune_in_set: "Tune s \<in> set es \<longleftrightarrow> s \<in> set (tuned es)"
  by (induction es rule: tuned.induct) auto

lemma Commit_workload_in_set:
  "Commit_workload d m \<in> set es \<longleftrightarrow> (d, m) \<in> set (committed es)"
  by (induction es rule: committed.induct) auto

subsection \<open>Shapes of the overrides\<close>

lemma Parse_database_eq:
  "Parse_database database task_name path =
     (if database = PyNone
      then ([Log_creating_JSONDatabase
               (os_path_join path (task_name @ ''_database_workload.json''))
               (os_path_join path (task_name @ ''_database_tuning_record.json''))],
            Inr (JSONDatabase
               (os_path_join path (task_name @ ''_database_workload.json''))
               (os_path_join path (task_name @ ''_database_tuning_record.json''))))
      else if isinstance database Database then ([], Inr database)
      else ([], Inl (TypeError ''database'' database)))"
  by (simp add: Parse_database_def bind_io_def emit_def return_io_def pure_io_def Let_def
        JSONDatabase_def)

lemma Parse_database_cases:
  obtains (rejected) e where "Parse_database database task_name work_dir = ([], Inl e)"
  | (resolved) es db where "Parse_database database task_name work_dir = (es, Inr db)" "quiet es"
  by (cases "database = PyNone"; cases "isinstance database Database")
     (simp_all add: Parse_database_eq quiet_def)

lemma Parse_builder_eq:
  "Parse_builder v =
     (if v = PyNone then Inr LocalBuilder
      else if isinstance v Builder then Inr v else Inl (TypeError ''builder'' v))"
  by (simp add: Parse_builder_def LocalBuilder_def)

lemma Parse_runner_eq:
  "Parse_runner v =
     (if v = PyNone then Inr LocalRunner
      else if isinstance v Runner then Inr v else Inl (TypeError ''runner'' v))"
  by (simp add: Parse_runner_def LocalRunner_def)

lemma Parse_cost_model_eq:
  "Parse_cost_model v =
     (if v = PyNone then Inr (XGBModel PerStoreFeature)
      else if isinstance v CostModel then Inr v else Inl (TypeError ''cost_model'' v))"
  by (simp add: Parse_cost_model_def)

lemma check_callbacks_eq:
  "check_callbacks i cs =
     (if list_all (\<lambda>c. isinstance c MeasureCallback) cs then None
      else Some (TypeError_item ''measure_callbacks''
                   (i + length (takeWhile (\<lambda>c. isinstance c MeasureCallback) cs))
                   (hd (dropWhile (\<lambda>c. isinstance c MeasureCallback) cs))))"
  by (induction cs arbitrary: i) simp_all

lemma Parse_callbacks_list:
  "Parse_callbacks (PyList cs) =
     (if list_all (\<lambda>c. isinstance c MeasureCallback) cs then Inr cs
      else Inl (TypeError_item ''measure_callbacks''
                  (length (takeWhile (\<lambda>c. isinstance c MeasureCallback) cs))
                  (hd (dropWhile (\<lambda>c. isinstance c MeasureCallback) cs))))"
  by (simp add: Parse_callbacks_def check_callbacks_eq)

lemma Parse_space_generator_eq:
  "Parse_space_generator v =
     (if v = PyNone then Inr PostOrderApply
      else if callable v
      then (case call v 0 of
              Inl e \<Rightarrow> Inl e
            | Inr made \<Rightarrow>
                if isinstance made SpaceGenerator then Inr made
                else Inl (TypeError ''space_generator'' made))
      else if isinstance v SpaceGenerator then Inr v
      else Inl (TypeError ''space_generator'' v))"
  by (simp add: Parse_space_generator_def bind_err_def split: sum.splits)

lemma Parse_task_scheduler_eq:
  "Parse_task_scheduler v tasks builder runner database cost_model measure_callbacks =
     (if v = PyNone
      then Inr (RoundRobin
                  \<lparr>sa_tasks = tasks, sa_builder = builder, sa_runner = runner,
                   sa_database = database, sa_cost_model = cost_model,
                   sa_measure_callbacks = measure_callbacks\<rparr>)
      else if callable v
      then (case call v 6 of
              Inl e \<Rightarrow> Inl e
            | Inr made \<Rightarrow>
                Inr (FromFactory made
                       \<lparr>sa_tasks = tasks, sa_builder = builder, sa_runner = runner,
                        sa_database = database, sa_cost_model = cost_model,
                        sa_measure_callbacks = measure_callbacks\<rparr>))
      else if isinstance v TaskScheduler then Inr (UserScheduler v)
      else Inl (TypeError ''task_scheduler'' v))"
  by (simp add: Parse_task_scheduler_def bind_err_def Let_def split: sum.splits)

text \<open>
  C5 does not hold of the code as stated: the three shapes are not accepted for every
  parameter. A zero-argument factory that returns a Builder is rejected as
  \<^verbatim>\<open>builder\<close>, and a ready-made list of rules is rejected as \<^verbatim>\<open>sch_rules\<close>.
\<close>

theorem three_shapes_not_accepted_everywhere:
  "Parse_builder (PyCallable 0 LocalBuilder) =
     Inl (TypeError ''builder'' (PyCallable 0 LocalBuilder)) \<and>
   Parse_sch_rules DefaultLLVM_sch_rules \<lparr>kind_name = ''llvm'', target_options = ''''\<rparr> =
     Inl (TypeError ''sch_rules'' DefaultLLVM_sch_rules)"
  by (simp add: Parse_builder_def Parse_sch_rules_def DefaultLLVM_sch_rules_def)

lemma Parse_callbacks_eq:
  "Parse_callbacks v =
     (if v = PyNone then Inr default_measure_callbacks
      else case v of
             PyList cs \<Rightarrow>
               if list_all (\<lambda>c. isinstance c MeasureCallback) cs then Inr cs
               else Inl (TypeError_item ''measure_callbacks''
                           (length (takeWhile (\<lambda>c. isinstance c MeasureCallback) cs))
                           (hd (dropWhile (\<lambda>c. isinstance c MeasureCallback) cs)))
           | PyTuple cs \<Rightarrow>
               if list_all (\<lambda>c. isinstance c MeasureCallback) cs then Inr cs
               else Inl (TypeError_item ''measure_callbacks''
                           (length (takeWhile (\<lambda>c. isinstance c MeasureCallback) cs))
                           (hd (dropWhile (\<lambda>c. isinstance c MeasureCallback) cs)))
           | _ \<Rightarrow> Inl (TypeError ''measure_callbacks'' v))"
  by (cases v) (simp_all add: Parse_callbacks_def check_callbacks_eq)

lemma Parse_sch_rules_eq:
  "Parse_sch_rules v target =
     (if callable v then call v 0
      else if v = PyNone
      then (if kind_name target = ''llvm'' then Inr DefaultLLVM_sch_rules
            else if kind_name target = ''cuda'' then Inr DefaultCUDA_sch_rules
            else Inl (ValueError_unsupported_target target))
      else Inl (TypeError ''sch_rules'' v))"
  by (simp add: Parse_sch_rules_def)

lemma Parse_postproc_eq:
  "Parse_postproc v target =
     (if callable v then call v 0
      else if v = PyNone
      then (if kind_name target = ''llvm'' then Inr DefaultLLVM_postproc
            else if kind_name target = ''cuda'' then Inr DefaultCUDA_postproc
            else Inl (ValueError_unsupported_target target))
      else Inl (TypeError ''postproc'' v))"
  by (simp add: Parse_postproc_def)

lemma Parse_mutator_probs_eq:
  "Parse_mutator_probs v target =
     (if callable v then call v 0
      else if v = PyNone
      then (if kind_name target = ''llvm'' then Inr DefaultLLVM_mutator_probs
            else if kind_name target = ''cuda'' then Inr DefaultCUDA_mutator_probs
            else Inl (ValueError_unsupported_target target))
      else Inl (TypeError ''mutator_probs'' v))"
  by (simp add: Parse_mutator_probs_def)

text \<open>
  C5 as amended: the accepted shapes depend on the parameter. A factory is never an
  instance and an instance is not callable; a callable returns its value when it is
  called with the number of arguments it takes and raises Python's own TypeError
  otherwise.
  Builder, runner, cost model and database accept \<^verbatim>\<open>None\<close>, which gives the default, or an
  instance, and every other value (a factory, an integer) raises the TypeError that
  names the parameter and the value. The callbacks accept \<^verbatim>\<open>None\<close> or a list or tuple of
  MeasureCallback instances; an element that is not one raises the TypeError that
  names the parameter, the index and the element, and every value that is neither
  \<^verbatim>\<open>None\<close> nor a list nor a tuple raises the TypeError that names the parameter and the
  value. The space generator accepts \<^verbatim>\<open>None\<close>, an instance or a callable, which is called
  with no argument and whose result must be an instance; its errors name
  \<^verbatim>\<open>space_generator\<close>. Rewrite rules, post-processors and mutator weights accept \<^verbatim>\<open>None\<close>,
  which gives the profile of the target's kind (\<open>llvm\<close> or \<open>cuda\<close>), or a callable, which
  is called with no argument and whose result is returned as it is; every other
  value, a ready-made list too, raises the TypeError that names \<^verbatim>\<open>sch_rules\<close>, \<^verbatim>\<open>postproc\<close> or
  \<^verbatim>\<open>mutator_probs\<close> and the value. The scheduler accepts \<^verbatim>\<open>None\<close>, an instance or a callable
  that is called with six arguments; every other value raises the TypeError that
  names \<^verbatim>\<open>task_scheduler\<close> and the value.
\<close>

theorem override_shapes_by_parameter:
  "isinstance (PyCallable n made) c = False \<and>
   callable (PyObj c name kwargs) = False \<and>
   callable (PyCallable n made) = True \<and>
   callable PyNone = False \<and>
   call (PyCallable n made) k =
     (if k = n then Inr made else Inl (TypeError_call (PyCallable n made) k)) \<and>
   call (PyCallable 0 made) 0 = Inr made \<and>
   call (PyCallable 0 made) 6 = Inl (TypeError_call (PyCallable 0 made) 6) \<and>
   Parse_builder v =
     (if v = PyNone then Inr LocalBuilder
      else if isinstance v Builder then Inr v else Inl (TypeError ''builder'' v)) \<and>
   Parse_builder (PyInt i) = Inl (TypeError ''builder'' (PyInt i)) \<and>
   Parse_runner v =
     (if v = PyNone then Inr LocalRunner
      else if isinstance v Runner then Inr v else Inl (TypeError ''runner'' v)) \<and>
   Parse_cost_model v =
     (if v = PyNone then Inr (XGBModel PerStoreFeature)
      else if isinstance v CostModel then Inr v else Inl (TypeError ''cost_model'' v)) \<and>
   snd (Parse_database v task_name path) =
     (if v = PyNone
      then Inr (JSONDatabase
                  (os_path_join path (task_name @ ''_database_workload.json''))
                  (os_path_join path (task_name @ ''_database_tuning_record.json'')))
      else if isinstance v Database then Inr v else Inl (TypeError ''database'' v)) \<and>
   Parse_callbacks v =
     (if v = PyNone then Inr default_measure_callbacks
      else case v of
             PyList cs \<Rightarrow>
               if list_all (\<lambda>c. isinstance c MeasureCallback) cs then Inr cs
               else Inl (TypeError_item ''measure_callbacks''
                           (length (takeWhile (\<lambda>c. isinstance c MeasureCallback) cs))
                           (hd (dropWhile (\<lambda>c. isinstance c MeasureCallback) cs)))
           | PyTuple cs \<Rightarrow>
               if list_all (\<lambda>c. isinstance c MeasureCallback) cs then Inr cs
               else Inl (TypeError_item ''measure_callbacks''
                           (length (takeWhile (\<lambda>c. isinstance c MeasureCallback) cs))
                           (hd (dropWhile (\<lambda>c. isinstance c MeasureCallback) cs)))
           | _ \<Rightarrow> Inl (TypeError ''measure_callbacks'' v)) \<and>
   Parse_callbacks PyNone = Inr default_measure_callbacks \<and>
   Parse_callbacks (PyList cs) =
     (if list_all (\<lambda>c. isinstance c MeasureCallback) cs then Inr cs
      else Inl (TypeError_item ''measure_callbacks''
                  (length (takeWhile (\<lambda>c. isinstance c MeasureCallback) cs))
                  (hd (dropWhile (\<lambda>c. isinstance c MeasureCallback) cs)))) \<and>
   Parse_callbacks (PyTuple cs) = Parse_callbacks (PyList cs) \<and>
   Parse_callbacks (PyObj c name kwargs) =
     Inl (TypeError ''measure_callbacks'' (PyObj c name kwargs)) \<and>
   Parse_callbacks (PyCallable n made) =
     Inl (TypeError ''measure_callbacks'' (PyCallable n made)) \<and>
   Parse_callbacks (PyInt i) = Inl (TypeError ''measure_callbacks'' (PyInt i)) \<and>
   Parse_space_generator v =
     (if v = PyNone then Inr PostOrderApply
      else if callable v
      then (case call v 0 of
              Inl e \<Rightarrow> Inl e
            | Inr made \<Rightarrow>
                if isinstance made SpaceGenerator then Inr made
                else Inl (TypeError ''space_generator'' made))
      else if isinstance v SpaceGenerator then Inr v
      else Inl (TypeError ''space_generator'' v)) \<and>
   Parse_sch_rules v target =
     (if callable v then call v 0
      else if v = PyNone
      then (if kind_name target = ''llvm'' then Inr DefaultLLVM_sch_rules
            else if kind_name target = ''cuda'' then Inr DefaultCUDA_sch_rules
            else Inl (ValueError_unsupported_target target))
      else Inl (TypeError ''sch_rules'' v)) \<and>
   Parse_postproc v target =
     (if callable v then call v 0
      else if v = PyNone
      then (if kind_name target = ''llvm'' then Inr DefaultLLVM_postproc
            else if kind_name target = ''cuda'' then Inr DefaultCUDA_postproc
            else Inl (ValueError_unsupported_target target))
      else Inl (TypeError ''postproc'' v)) \<and>
   Parse_mutator_probs v target =
     (if callable v then call v 0
      else if v = PyNone
      then (if kind_name target = ''llvm'' then Inr DefaultLLVM_mutator_probs
            else if kind_name target = ''cuda'' then Inr DefaultCUDA_mutator_probs
            else Inl (ValueError_unsupported_target target))
      else Inl (TypeError ''mutator_probs'' v)) \<and>
   Parse_sch_rules PyNone \<lparr>kind_name = ''llvm'', target_options = opts\<rparr> =
     Inr DefaultLLVM_sch_rules \<and>
   Parse_postproc PyNone \<lparr>kind_name = ''llvm'', target_options = opts\<rparr> =
     Inr DefaultLLVM_postproc \<and>
   Parse_mutator_probs PyNone \<lparr>kind_name = ''llvm'', target_options = opts\<rparr> =
     Inr DefaultLLVM_mutator_probs \<and>
   Parse_sch_rules PyNone \<lparr>kind_name = ''cuda'', target_options = opts\<rparr> =
     Inr DefaultCUDA_sch_rules \<and>
   Parse_postproc PyNone \<lparr>kind_name = ''cuda'', target_options = opts\<rparr> =
     Inr DefaultCUDA_postproc \<and>
   Parse_mutator_probs PyNone \<lparr>kind_name = ''cuda'', target_options = opts\<rparr> =
     Inr DefaultCUDA_mutator_probs \<and>
   Parse_task_scheduler v tasks builder runner database cost_model measure_callbacks =
     (if v = PyNone
      then Inr (RoundRobin
                  \<lparr>sa_tasks = tasks, sa_builder = builder, sa_runner = runner,
                   sa_database = database, sa_cost_model = cost_model,
                   sa_measure_callbacks = measure_callbacks\<rparr>)
      else if callable v
      then (case call v 6 of
              Inl e \<Rightarrow> Inl e
            | Inr made \<Rightarrow>
                Inr (FromFactory made
                       \<lparr>sa_tasks = tasks, sa_builder = builder, sa_runner = runner,
                        sa_database = database, sa_cost_model = cost_model,
                        sa_measure_callbacks = measure_callbacks\<rparr>))
      else if isinstance v TaskScheduler then Inr (UserScheduler v)
      else Inl (TypeError ''task_scheduler'' v))"
proof -
  have db: "snd (Parse_database v task_name path) =
     (if v = PyNone
      then Inr (JSONDatabase
                  (os_path_join path (task_name @ ''_database_workload.json''))
                  (os_path_join path (task_name @ ''_database_tuning_record.json'')))
      else if isinstance v Database then Inr v else Inl (TypeError ''database'' v))"
    by (simp add: Parse_database_eq)
  have cb: "Parse_callbacks PyNone = Inr default_measure_callbacks"
    "Parse_callbacks (PyTuple cs) = Parse_callbacks (PyList cs)"
    "Parse_callbacks (PyObj c name kwargs) =
       Inl (TypeError ''measure_callbacks'' (PyObj c name kwargs))"
    "Parse_callbacks (PyCallable n made) =
       Inl (TypeError ''measure_callbacks'' (PyCallable n made))"
    "Parse_callbacks (PyInt i) = Inl (TypeError ''measure_callbacks'' (PyInt i))"
    by (simp_all add: Parse_callbacks_def)
  have int: "Parse_builder (PyInt i) = Inl (TypeError ''builder'' (PyInt i))"
    by (simp add: Parse_builder_eq)
  have none: "Parse_sch_rules PyNone \<lparr>kind_name = ''llvm'', target_options = opts\<rparr> =
       Inr DefaultLLVM_sch_rules"
    "Parse_postproc PyNone \<lparr>kind_name = ''llvm'', target_options = opts\<rparr> =
       Inr DefaultLLVM_postproc"
    "Parse_mutator_probs PyNone \<lparr>kind_name = ''llvm'', target_options = opts\<rparr> =
       Inr DefaultLLVM_mutator_probs"
    "Parse_sch_rules PyNone \<lparr>kind_name = ''cuda'', target_options = opts\<rparr> =
       Inr DefaultCUDA_sch_rules"
    "Parse_postproc PyNone \<lparr>kind_name = ''cuda'', target_options = opts\<rparr> =
       Inr DefaultCUDA_postproc"
    "Parse_mutator_probs PyNone \<lparr>kind_name = ''cuda'', target_options = opts\<rparr> =
       Inr DefaultCUDA_mutator_probs"
    by (simp_all add: Parse_sch_rules_def Parse_postproc_def Parse_mutator_probs_def)
  show ?thesis
    by (intro conjI, simp, simp, simp, simp, simp, simp, simp, rule Parse_builder_eq,
        rule int, rule Parse_runner_eq, rule Parse_cost_model_eq, rule db,
        rule Parse_callbacks_eq, rule cb(1), rule Parse_callbacks_list, rule cb(2),
        rule cb(3), rule cb(4), rule cb(5), rule Parse_space_generator_eq,
        rule Parse_sch_rules_eq, rule Parse_postproc_eq, rule Parse_mutator_probs_eq,
        rule none(1), rule none(2), rule none(3), rule none(4), rule none(5),
        rule none(6), rule Parse_task_scheduler_eq)
qed

subsection \<open>Targets without a default profile\<close>

text \<open>
  C6: with no override, a target whose kind is neither \<open>llvm\<close> nor \<open>cuda\<close> makes the
  resolution of the rewrite rules, of the post-processors and of the mutator weights
  raise the error that carries the target, whose kind is the offending one; no profile
  is picked, and no tuning context is built for that target.
\<close>

theorem unsupported_target_raises:
  assumes "kind_name target \<noteq> ''llvm''" and "kind_name target \<noteq> ''cuda''"
  shows "Parse_sch_rules PyNone target = Inl (ValueError_unsupported_target target) \<and>
    Parse_postproc PyNone target = Inl (ValueError_unsupported_target target) \<and>
    Parse_mutator_probs PyNone target = Inl (ValueError_unsupported_target target) \<and>
    (\<forall>tc. Parse_tune_context x NoContext irmod target config task_name PyNone PyNone PyNone
        PyNone num_threads \<noteq> Inr tc)"
  using assms
  by (auto simp: Parse_sch_rules_def Parse_postproc_def Parse_mutator_probs_def
        Parse_tune_context_def bind_err_def split: sum.splits)

theorem unsupported_target_raises_witness:
  "kind_name \<lparr>kind_name = ''opencl'', target_options = ''''\<rparr> \<noteq> ''llvm'' \<and>
   kind_name \<lparr>kind_name = ''opencl'', target_options = ''''\<rparr> \<noteq> ''cuda'' \<and>
   Parse_sch_rules PyNone \<lparr>kind_name = ''opencl'', target_options = ''''\<rparr> =
     Inl (ValueError_unsupported_target \<lparr>kind_name = ''opencl'', target_options = ''''\<rparr>) \<and>
   Parse_postproc PyNone \<lparr>kind_name = ''opencl'', target_options = ''''\<rparr> =
     Inl (ValueError_unsupported_target \<lparr>kind_name = ''opencl'', target_options = ''''\<rparr>) \<and>
   Parse_mutator_probs PyNone \<lparr>kind_name = ''opencl'', target_options = ''''\<rparr> =
     Inl (ValueError_unsupported_target \<lparr>kind_name = ''opencl'', target_options = ''''\<rparr>) \<and>
   Parse_tune_context sample_ext NoContext [(''main'', kernel 1)]
       \<lparr>kind_name = ''opencl'', target_options = ''''\<rparr> sample_config ''main'' PyNone PyNone
       PyNone PyNone PyNone =
     Inl (ValueError_unsupported_target \<lparr>kind_name = ''opencl'', target_options = ''''\<rparr>)"
proof -
  have k: "kind_name \<lparr>kind_name = ''opencl'', target_options = ''''\<rparr> \<noteq> ''llvm''"
    "kind_name \<lparr>kind_name = ''opencl'', target_options = ''''\<rparr> \<noteq> ''cuda''"
    by simp_all
  from unsupported_target_raises [OF k] k show ?thesis
    by (simp add: Parse_tune_context_def bind_err_def Parse_space_generator_def
          sample_ext_def)
qed

subsection \<open>The single-program entry point in stages\<close>

lemma Parse_task_scheduler_tasks:
  "Parse_task_scheduler task_scheduler tasks builder runner database cost_model
       measure_callbacks = Inr ts \<Longrightarrow> set (scheduler_tasks ts) \<subseteq> set tasks"
  by (auto simp: Parse_task_scheduler_def Let_def bind_err_def split: if_splits sum.splits)

lemma schedule_and_tune_shape:
  "(\<exists>e. schedule_and_tune x task_scheduler tasks builder runner database1 cost_model
         measure_callbacks f = ([], Inl e)) \<or>
   (\<exists>ts e. schedule_and_tune x task_scheduler tasks builder runner database1 cost_model
         measure_callbacks f = ([Tune ts], Inl e) \<and>
       set (scheduler_tasks ts) \<subseteq> set tasks) \<or>
   (\<exists>ts. schedule_and_tune x task_scheduler tasks builder runner database1 cost_model
         measure_callbacks f = prepend [Tune ts] (f ts) \<and>
       scheduler_tune x ts = None \<and> set (scheduler_tasks ts) \<subseteq> set tasks)"
  unfolding schedule_and_tune_def
  by (auto simp: bind_io_simps split: sum.splits option.splits
           dest: Parse_task_scheduler_tasks)

lemma schedule_and_tune_cases:
  obtains
    (setup_failed) e where
      "schedule_and_tune x task_scheduler tasks builder runner database1 cost_model
         measure_callbacks f = ([], Inl e)"
  | (tune_raised) ts e where
      "schedule_and_tune x task_scheduler tasks builder runner database1 cost_model
         measure_callbacks f = ([Tune ts], Inl e)"
      "set (scheduler_tasks ts) \<subseteq> set tasks"
  | (tune_returned) ts where
      "schedule_and_tune x task_scheduler tasks builder runner database1 cost_model
         measure_callbacks f = prepend [Tune ts] (f ts)"
      "scheduler_tune x ts = None"
      "set (scheduler_tasks ts) \<subseteq> set tasks"
  using schedule_and_tune_shape [of x task_scheduler tasks builder runner database1
          cost_model measure_callbacks f]
  by blast

lemma tune_tir_unfold:
  "tune_tir x irmod target config work_dir task_name builder runner database cost_model
       measure_callbacks task_scheduler space sch_rules postprocs mutator_probs num_threads =
     bind_io (emit (Log_working_directory work_dir)) (\<lambda>_.
     bind_io (pure_io (Parse_mod x irmod)) (\<lambda>irmod1.
     bind_io (Parse_database database task_name work_dir) (\<lambda>database1.
     bind_io (pure_io (Parse_target x target)) (\<lambda>target1.
     bind_io (pure_io (Parse_tune_context x NoContext irmod1 target1 config task_name
                         space sch_rules postprocs mutator_probs num_threads))
       (\<lambda>tune_context.
       schedule_and_tune x task_scheduler [tune_context] builder runner database1 cost_model
         measure_callbacks (tune_tir_result x work_dir task_name irmod1 database1))))))"
  by (simp add: tune_tir_def tune_tir_result_def schedule_and_tune_def)

lemma tune_tir_cases:
  fixes x irmod target config work_dir task_name builder runner database cost_model
    measure_callbacks task_scheduler space sch_rules postprocs mutator_probs num_threads
  defines "run \<equiv> tune_tir x irmod target config work_dir task_name builder runner database
      cost_model measure_callbacks task_scheduler space sch_rules postprocs mutator_probs
      num_threads"
  obtains
    (setup_failed) es e where "run = (es, Inl e)" "quiet es"
  | (tune_raised) es irmod1 target1 tc ts e where
      "run = (es @ [Tune ts], Inl e)" "quiet es"
      "Parse_tune_context x NoContext irmod1 target1 config task_name space sch_rules postprocs
         mutator_probs num_threads = Inr tc"
      "set (scheduler_tasks ts) \<subseteq> {tc}"
  | (tune_returned) es irmod1 target1 database1 tc ts where
      "run = prepend (es @ [Tune ts])
               (tune_tir_result x work_dir task_name irmod1 database1 ts)" "quiet es"
      "scheduler_tune x ts = None"
      "Parse_tune_context x NoContext irmod1 target1 config task_name space sch_rules postprocs
         mutator_probs num_threads = Inr tc"
      "set (scheduler_tasks ts) \<subseteq> {tc}"
proof (cases "Parse_mod x irmod")
  case (Inl e)
  then have "run = ([Log_working_directory work_dir], Inl e)"
    by (simp add: run_def tune_tir_unfold bind_io_simps)
  then show ?thesis
    by (rule setup_failed) (simp add: quiet_def)
next
  case irmod1: (Inr irmod1)
  show ?thesis
  proof (cases rule: Parse_database_cases [of database task_name work_dir])
    case (rejected e)
    then have "run = ([Log_working_directory work_dir], Inl e)"
      using irmod1 by (simp add: run_def tune_tir_unfold bind_io_simps)
    then show ?thesis
      by (rule setup_failed) (simp add: quiet_def)
  next
    case (resolved es database1)
    let ?es = "Log_working_directory work_dir # es"
    have q: "quiet ?es"
      using resolved(2) by (simp add: quiet_def)
    show ?thesis
    proof (cases "Parse_target x target")
      case (Inl e)
      then have "run = (?es, Inl e)"
        using irmod1 resolved(1) by (simp add: run_def tune_tir_unfold bind_io_simps)
      then show ?thesis
        using q by (rule setup_failed)
    next
      case target1: (Inr target1)
      show ?thesis
      proof (cases "Parse_tune_context x NoContext irmod1 target1 config task_name space
                      sch_rules postprocs mutator_probs num_threads")
        case (Inl e)
        then have "run = (?es, Inl e)"
          using irmod1 resolved(1) target1
          by (simp add: run_def tune_tir_unfold bind_io_simps)
        then show ?thesis
          using q by (rule setup_failed)
      next
        case tc: (Inr tc)
        let ?f = "tune_tir_result x work_dir task_name irmod1 database1"
        have run: "run = prepend ?es
            (schedule_and_tune x task_scheduler [tc] builder runner database1 cost_model
               measure_callbacks ?f)"
          using irmod1 resolved(1) target1 tc
          by (simp add: run_def tune_tir_unfold bind_io_simps)
        show ?thesis
        proof (cases rule: schedule_and_tune_cases [of x task_scheduler "[tc]" builder runner
                  database1 cost_model measure_callbacks ?f])
          case (setup_failed e)
          then have "run = (?es, Inl e)"
            using run by simp
          then show ?thesis
            using q by (rule that(1))
        next
          case (tune_raised ts e)
          then have "run = (?es @ [Tune ts], Inl e)"
            using run by simp
          then show ?thesis
            using q tc tune_raised(2) [simplified] by (rule that(2))
        next
          case (tune_returned ts)
          then have "run = prepend (?es @ [Tune ts]) (?f ts)"
            using run by simp
          then show ?thesis
            using q tune_returned(2) tc tune_returned(3) [simplified] by (rule that(3))
        qed
      qed
    qed
  qed
qed

lemma tune_tir_result_no_record:
  "get_top_k x database1 irmod1 1 = Inr [] \<Longrightarrow>
     tune_tir_result x work_dir task_name irmod1 database1 ts =
       ([Commit_workload database1 irmod1], Inr None)"
  by (simp add: tune_tir_result_def bind_io_simps return_io_def)

lemma tuned_tune_tir_result:
  "tuned (fst (tune_tir_result x work_dir task_name irmod1 database1 ts)) = []"
  by (simp add: tune_tir_result_def bind_io_simps return_io_def pure_io_Inl
           split: sum.splits list.splits option.splits)

lemma committed_tune_tir_result:
  "committed (fst (tune_tir_result x work_dir task_name irmod1 database1 ts)) =
     [(database1, irmod1)]"
  by (simp add: tune_tir_result_def bind_io_simps return_io_def pure_io_Inl
           split: sum.splits list.splits option.splits)

lemma saved_paths_tune_tir_result:
  "saved_paths (fst (tune_tir_result x work_dir task_name irmod1 database1 ts)) =
     (case get_top_k x database1 irmod1 1 of
        Inr [best] \<Rightarrow>
          if apply_to_schedule x best irmod1 = None
          then [os_path_join work_dir (task_name @ ''.xgb'')] else []
      | _ \<Rightarrow> [])"
  by (simp add: tune_tir_result_def bind_io_simps return_io_def pure_io_Inl
           split: sum.splits list.splits option.splits)

subsection \<open>The path without a tuning record\<close>

text \<open>
  C7: when the scheduler has run to completion, so that the workload of the normalized
  program has been committed to the record store, and the store has no record for it,
  \<^verbatim>\<open>tune_tir\<close> returns \<^verbatim>\<open>None\<close>; it does not raise.
\<close>

theorem tune_tir_no_record_returns_None:
  assumes "Commit_workload db m \<in> set (fst (tune_tir x irmod target config work_dir task_name
      builder runner database cost_model measure_callbacks task_scheduler space sch_rules
      postprocs mutator_probs num_threads))"
    and "get_top_k x db m 1 = Inr []"
  shows "snd (tune_tir x irmod target config work_dir task_name
      builder runner database cost_model measure_callbacks task_scheduler space sch_rules
      postprocs mutator_probs num_threads) = Inr None"
proof (cases rule: tune_tir_cases [of x irmod target config work_dir task_name
      builder runner database cost_model measure_callbacks task_scheduler space sch_rules
      postprocs mutator_probs num_threads])
  case (setup_failed es e)
  with assms(1) show ?thesis
    by (simp add: Commit_workload_in_set quiet_def)
next
  case (tune_raised es irmod1 target1 tc ts e)
  with assms(1) show ?thesis
    by (simp add: Commit_workload_in_set quiet_def committed_append)
next
  case (tune_returned es irmod1 target1 database1 tc ts)
  with assms(1) have "db = database1" "m = irmod1"
    by (simp_all add: Commit_workload_in_set quiet_def committed_append
          committed_tune_tir_result)
  with assms(2) tune_returned(1) show ?thesis
    by (simp add: tune_tir_result_no_record)
qed

theorem tune_tir_no_record_returns_None_witness:
  "Commit_workload sample_database [(''main'', kernel 1)]
     \<in> set (fst (sample_tune_tir sample_ext)) \<and>
   get_top_k sample_ext sample_database [(''main'', kernel 1)] 1 = Inr [] \<and>
   snd (sample_tune_tir sample_ext) = Inr None"
proof -
  have c: "Commit_workload sample_database [(''main'', kernel 1)]
     \<in> set (fst (sample_tune_tir sample_ext))"
    by (simp add: sample_tune_tir_run)
  have k: "get_top_k sample_ext sample_database [(''main'', kernel 1)] 1 = Inr []"
    by (simp add: sample_ext_def)
  have "snd (sample_tune_tir sample_ext) = Inr None"
    unfolding sample_tune_tir_def
    by (rule tune_tir_no_record_returns_None [OF c [unfolded sample_tune_tir_def] k])
  with c k show ?thesis by simp
qed

text \<open>
  C8 does not hold of the code: \<^verbatim>\<open>tune_tir\<close> returns \<^verbatim>\<open>None\<close> before the save step. In the
  sample run the scheduler runs to completion, the workload is committed, no record is
  found, \<^verbatim>\<open>None\<close> is returned and the cost model is saved nowhere.
\<close>

theorem tune_tir_no_record_no_save:
  "tuned (fst (sample_tune_tir sample_ext)) =
     [sample_scheduler [sample_context ''main'' 1]] \<and>
   scheduler_tune sample_ext (sample_scheduler [sample_context ''main'' 1]) = None \<and>
   committed (fst (sample_tune_tir sample_ext)) =
     [(sample_database, [(''main'', kernel 1)])] \<and>
   get_top_k sample_ext sample_database [(''main'', kernel 1)] 1 = Inr [] \<and>
   snd (sample_tune_tir sample_ext) = Inr None \<and>
   saved_paths (fst (sample_tune_tir sample_ext)) = []"
  by (simp add: sample_tune_tir_run) (simp add: sample_ext_def)

lemma tune_tir_saved_paths_when_committed:
  assumes "Commit_workload db m \<in> set (fst (tune_tir x irmod target config work_dir task_name
      builder runner database cost_model measure_callbacks task_scheduler space sch_rules
      postprocs mutator_probs num_threads))"
  shows "saved_paths (fst (tune_tir x irmod target config work_dir task_name
      builder runner database cost_model measure_callbacks task_scheduler space sch_rules
      postprocs mutator_probs num_threads)) =
     (case get_top_k x db m 1 of
        Inr [best] \<Rightarrow>
          if apply_to_schedule x best m = None
          then [os_path_join work_dir (task_name @ ''.xgb'')] else []
      | _ \<Rightarrow> [])"
proof (cases rule: tune_tir_cases [of x irmod target config work_dir task_name
      builder runner database cost_model measure_callbacks task_scheduler space sch_rules
      postprocs mutator_probs num_threads])
  case (setup_failed es e)
  with assms(1) show ?thesis
    by (simp add: Commit_workload_in_set quiet_def)
next
  case (tune_raised es irmod1 target1 tc ts e)
  with assms(1) show ?thesis
    by (simp add: Commit_workload_in_set quiet_def committed_append)
next
  case (tune_returned es irmod1 target1 database1 tc ts)
  with assms(1) have eq: "db = database1" "m = irmod1"
    by (simp_all add: Commit_workload_in_set quiet_def committed_append
          committed_tune_tir_result)
  show ?thesis
    unfolding eq using tune_returned(1,2)
    by (simp add: saved_paths_append quiet_def saved_paths_tune_tir_result)
qed

lemma fst_tune_tir_result:
  "fst (tune_tir_result x work_dir task_name irmod1 database1 ts) =
     Commit_workload database1 irmod1 #
     (case get_top_k x database1 irmod1 1 of
        Inr [best] \<Rightarrow>
          if apply_to_schedule x best irmod1 = None
          then [Cost_model_save ts (os_path_join work_dir (task_name @ ''.xgb''))] else []
      | _ \<Rightarrow> [])"
  by (simp add: tune_tir_result_def bind_io_simps return_io_def pure_io_Inl
           split: sum.splits list.splits option.splits)

lemma tune_tir_save_exactly:
  fixes x irmod target config work_dir task_name builder runner database cost_model
    measure_callbacks task_scheduler space sch_rules postprocs mutator_probs num_threads
  defines "run \<equiv> tune_tir x irmod target config work_dir task_name builder runner database
      cost_model measure_callbacks task_scheduler space sch_rules postprocs mutator_probs
      num_threads"
  shows "saved_paths (fst run) =
     (if \<exists>ts db m best.
           tuned (fst run) = [ts] \<and> scheduler_tune x ts = None \<and>
           committed (fst run) = [(db, m)] \<and> get_top_k x db m 1 = Inr [best] \<and>
           apply_to_schedule x best m = None
      then [os_path_join work_dir (task_name @ ''.xgb'')] else [])"
proof (cases rule: tune_tir_cases [of x irmod target config work_dir task_name
      builder runner database cost_model measure_callbacks task_scheduler space sch_rules
      postprocs mutator_probs num_threads])
  case (setup_failed es e)
  then show ?thesis
    by (simp add: run_def quiet_def)
next
  case (tune_raised es irmod1 target1 tc ts e)
  then show ?thesis
    by (simp add: run_def quiet_def committed_append saved_paths_append)
next
  case (tune_returned es irmod1 target1 database1 tc ts)
  let ?r = "tune_tir_result x work_dir task_name irmod1 database1 ts"
  have t: "tuned (fst run) = [ts]"
    using tune_returned(1,2)
    by (simp add: run_def quiet_def tuned_append tuned_tune_tir_result)
  have c: "committed (fst run) = [(database1, irmod1)]"
    using tune_returned(1,2)
    by (simp add: run_def quiet_def committed_append committed_tune_tir_result)
  have s: "saved_paths (fst run) =
     (case get_top_k x database1 irmod1 1 of
        Inr [best] \<Rightarrow>
          if apply_to_schedule x best irmod1 = None
          then [os_path_join work_dir (task_name @ ''.xgb'')] else []
      | _ \<Rightarrow> [])"
    using tune_returned(1,2)
    by (simp add: run_def quiet_def saved_paths_append saved_paths_tune_tir_result)
  show ?thesis
    unfolding s t c using tune_returned(3)
    by (auto split: sum.splits list.splits)
qed

lemma tune_tir_save_last:
  fixes x irmod target config work_dir task_name builder runner database cost_model
    measure_callbacks task_scheduler space sch_rules postprocs mutator_probs num_threads
  defines "run \<equiv> tune_tir x irmod target config work_dir task_name builder runner database
      cost_model measure_callbacks task_scheduler space sch_rules postprocs mutator_probs
      num_threads"
  shows "saved_paths (fst run) = [] \<or>
    (\<exists>es ts db m. quiet es \<and>
       fst run = es @ [Tune ts, Commit_workload db m,
                       Cost_model_save ts (os_path_join work_dir (task_name @ ''.xgb''))])"
proof (cases rule: tune_tir_cases [of x irmod target config work_dir task_name
      builder runner database cost_model measure_callbacks task_scheduler space sch_rules
      postprocs mutator_probs num_threads])
  case (setup_failed es e)
  then show ?thesis
    by (simp add: run_def quiet_def)
next
  case (tune_raised es irmod1 target1 tc ts e)
  then show ?thesis
    by (simp add: run_def quiet_def saved_paths_append)
next
  case (tune_returned es irmod1 target1 database1 tc ts)
  show ?thesis
  proof (cases "saved_paths (fst run) = []")
    case True
    then show ?thesis by simp
  next
    case False
    have "fst run = es @ [Tune ts] @
        fst (tune_tir_result x work_dir task_name irmod1 database1 ts)"
      using tune_returned(1) by (simp add: run_def)
    moreover have "fst (tune_tir_result x work_dir task_name irmod1 database1 ts) =
        [Commit_workload database1 irmod1,
         Cost_model_save ts (os_path_join work_dir (task_name @ ''.xgb''))]"
      using False tune_returned(1,2)
      by (auto simp: run_def quiet_def saved_paths_append fst_tune_tir_result
            split: sum.splits list.splits if_splits)
    ultimately have "fst run = es @ [Tune ts, Commit_workload database1 irmod1,
         Cost_model_save ts (os_path_join work_dir (task_name @ ''.xgb''))]"
      by simp
    with tune_returned(2) show ?thesis by blast
  qed
qed

text \<open>
  C8 as amended: in \<^verbatim>\<open>tune_tir\<close> the cost model is saved, to the file \<^verbatim>\<open>{task_name}.xgb\<close> under
  the working directory, exactly when the scheduler has run and returned, the workload
  has been committed, the store has returned exactly one best record and the trace of
  that record has been applied to the schedule. In every other run nothing is saved: not
  when the resolution of an argument or the scheduler raised, and not on the path where
  no tuning record is found. When the cost model is saved, the save is the last effect
  of the run and follows the scheduler's run and the commit of the workload.
\<close>

theorem tune_tir_saves_after_record:
  "saved_paths (fst (tune_tir x irmod target config work_dir task_name builder runner
      database cost_model measure_callbacks task_scheduler space sch_rules postprocs
      mutator_probs num_threads)) =
     (if \<exists>ts db m best.
           tuned (fst (tune_tir x irmod target config work_dir task_name builder runner
             database cost_model measure_callbacks task_scheduler space sch_rules postprocs
             mutator_probs num_threads)) = [ts] \<and>
           scheduler_tune x ts = None \<and>
           committed (fst (tune_tir x irmod target config work_dir task_name builder runner
             database cost_model measure_callbacks task_scheduler space sch_rules postprocs
             mutator_probs num_threads)) = [(db, m)] \<and>
           get_top_k x db m 1 = Inr [best] \<and>
           apply_to_schedule x best m = None
      then [os_path_join work_dir (task_name @ ''.xgb'')] else []) \<and>
   (saved_paths (fst (tune_tir x irmod target config work_dir task_name builder runner
      database cost_model measure_callbacks task_scheduler space sch_rules postprocs
      mutator_probs num_threads)) = [] \<or>
    (\<exists>es ts db m. quiet es \<and>
       fst (tune_tir x irmod target config work_dir task_name builder runner
         database cost_model measure_callbacks task_scheduler space sch_rules postprocs
         mutator_probs num_threads) =
       es @ [Tune ts, Commit_workload db m,
             Cost_model_save ts (os_path_join work_dir (task_name @ ''.xgb''))])) \<and>
   (Commit_workload d w \<in> set (fst (tune_tir x irmod target config work_dir task_name
      builder runner database cost_model measure_callbacks task_scheduler space sch_rules
      postprocs mutator_probs num_threads)) \<longrightarrow>
    saved_paths (fst (tune_tir x irmod target config work_dir task_name builder runner
      database cost_model measure_callbacks task_scheduler space sch_rules postprocs
      mutator_probs num_threads)) =
     (case get_top_k x d w 1 of
        Inr [best] \<Rightarrow>
          if apply_to_schedule x best w = None
          then [os_path_join work_dir (task_name @ ''.xgb'')] else []
      | _ \<Rightarrow> []))"
  by (intro conjI impI, rule tune_tir_save_exactly, rule tune_tir_save_last,
      rule tune_tir_saved_paths_when_committed)

theorem tune_tir_saves_after_record_witness:
  "tuned (fst (sample_tune_tir sample_ext_with_record)) =
     [sample_scheduler [sample_context ''main'' 1]] \<and>
   scheduler_tune sample_ext_with_record (sample_scheduler [sample_context ''main'' 1]) =
     None \<and>
   committed (fst (sample_tune_tir sample_ext_with_record)) =
     [(sample_database, [(''main'', kernel 1)])] \<and>
   Commit_workload sample_database [(''main'', kernel 1)]
     \<in> set (fst (sample_tune_tir sample_ext_with_record)) \<and>
   get_top_k sample_ext_with_record sample_database [(''main'', kernel 1)] 1 =
     Inr [\<lparr>tr_trace = 7, tr_run_secs = 1 / 2\<rparr>] \<and>
   apply_to_schedule sample_ext_with_record \<lparr>tr_trace = 7, tr_run_secs = 1 / 2\<rparr>
     [(''main'', kernel 1)] = None \<and>
   saved_paths (fst (sample_tune_tir sample_ext_with_record)) = [''work/main.xgb'']"
proof -
  have c: "Commit_workload sample_database [(''main'', kernel 1)]
     \<in> set (fst (sample_tune_tir sample_ext_with_record))"
    by (simp add: sample_tune_tir_run_with_record)
  have t: "tuned (fst (sample_tune_tir sample_ext_with_record)) =
       [sample_scheduler [sample_context ''main'' 1]]"
    "committed (fst (sample_tune_tir sample_ext_with_record)) =
       [(sample_database, [(''main'', kernel 1)])]"
    by (simp_all add: sample_tune_tir_run_with_record)
  have k: "get_top_k sample_ext_with_record sample_database [(''main'', kernel 1)] 1 =
     Inr [\<lparr>tr_trace = 7, tr_run_secs = 1 / 2\<rparr>]"
    "apply_to_schedule sample_ext_with_record \<lparr>tr_trace = 7, tr_run_secs = 1 / 2\<rparr>
       [(''main'', kernel 1)] = None"
    "scheduler_tune sample_ext_with_record (sample_scheduler [sample_context ''main'' 1]) =
       None"
    by (simp_all add: sample_ext_with_record_def sample_ext_def)
  have "Commit_workload sample_database [(''main'', kernel 1)]
          \<in> set (fst (sample_tune_tir sample_ext_with_record)) \<longrightarrow>
        saved_paths (fst (sample_tune_tir sample_ext_with_record)) =
     (case get_top_k sample_ext_with_record sample_database [(''main'', kernel 1)] 1 of
        Inr [best] \<Rightarrow>
          if apply_to_schedule sample_ext_with_record best [(''main'', kernel 1)] = None
          then [os_path_join ''work'' (''main'' @ ''.xgb'')] else []
      | _ \<Rightarrow> [])"
    unfolding sample_tune_tir_def
    using tune_tir_saves_after_record by blast
  with c have "saved_paths (fst (sample_tune_tir sample_ext_with_record)) =
     (case get_top_k sample_ext_with_record sample_database [(''main'', kernel 1)] 1 of
        Inr [best] \<Rightarrow>
          if apply_to_schedule sample_ext_with_record best [(''main'', kernel 1)] = None
          then [os_path_join ''work'' (''main'' @ ''.xgb'')] else []
      | _ \<Rightarrow> [])"
    by blast
  also have "\<dots> = [''work/main.xgb'']"
    by (simp add: sample_ext_with_record_def sample_ext_def os_path_join_def)
  finally have "saved_paths (fst (sample_tune_tir sample_ext_with_record)) =
     [''work/main.xgb'']" .
  with c t k show ?thesis by simp
qed

subsection \<open>The random state of the contexts\<close>

lemma Parse_tune_context_rand_state:
  "Parse_tune_context x NoContext irmod1 target1 config task_name space sch_rules postprocs
     mutator_probs num_threads = Inr tc \<Longrightarrow> tc_rand_state tc = - 1"
  by (auto simp: Parse_tune_context_def bind_err_def split: sum.splits)

lemma tune_tir_rand_state:
  assumes "Tune s \<in> set (fst (tune_tir x irmod target config work_dir task_name
      builder runner database cost_model measure_callbacks task_scheduler space sch_rules
      postprocs mutator_probs num_threads))"
    and "tc \<in> set (scheduler_tasks s)"
  shows "tc_rand_state tc = - 1"
proof (cases rule: tune_tir_cases [of x irmod target config work_dir task_name
      builder runner database cost_model measure_callbacks task_scheduler space sch_rules
      postprocs mutator_probs num_threads])
  case (setup_failed es e)
  with assms(1) show ?thesis
    by (simp add: Tune_in_set quiet_def)
next
  case (tune_raised es irmod1 target1 tc' ts e)
  with assms have "tc = tc'"
    by (auto simp: Tune_in_set quiet_def tuned_append)
  with tune_raised(3) show ?thesis
    by (simp add: Parse_tune_context_rand_state)
next
  case (tune_returned es irmod1 target1 database1 tc' ts)
  with assms have "tc = tc'"
    by (auto simp: Tune_in_set quiet_def tuned_append tuned_tune_tir_result)
  with tune_returned(4) show ?thesis
    by (simp add: Parse_tune_context_rand_state)
qed

lemma tune_te_rand_state:
  assumes "Tune s \<in> set (fst (tune_te x tensors target config work_dir task_name
      builder runner database cost_model measure_callbacks task_scheduler space sch_rules
      postprocs mutator_probs num_threads))"
    and "tc \<in> set (scheduler_tasks s)"
  shows "tc_rand_state tc = - 1"
  using assms
  by (auto simp: tune_te_def bind_io_pure split: sum.splits dest: tune_tir_rand_state)

lemma parse_tune_contexts_rand_state:
  "parse_tune_contexts x tune_contexts extracted target1 config space sch_rules postprocs
      mutator_probs num_threads = Inr tcs \<Longrightarrow>
   \<forall>tc \<in> set tune_contexts. tc_rand_state tc = - 1 \<Longrightarrow>
   \<forall>tc \<in> set tcs. tc_rand_state tc = - 1"
proof (induction extracted arbitrary: tune_contexts)
  case Nil
  then show ?case by simp
next
  case (Cons task rest)
  from Cons.prems(1) obtain irmod1 tune_context where
    tc: "Parse_tune_context x NoContext irmod1 target1 config (et_task_name task) space
           sch_rules postprocs mutator_probs num_threads = Inr tune_context"
    and rest: "parse_tune_contexts x (tune_contexts @ [tune_context]) rest target1 config space
           sch_rules postprocs mutator_probs num_threads = Inr tcs"
    by (auto simp: bind_err_def split: list.splits sum.splits)
  have "\<forall>tc \<in> set (tune_contexts @ [tune_context]). tc_rand_state tc = - 1"
    using Cons.prems(2) Parse_tune_context_rand_state [OF tc] by simp
  with Cons.IH [OF rest] show ?case by blast
qed

lemma tune_relay_unfold:
  "tune_relay x irmod target config work_dir params task_name builder runner database
       cost_model measure_callbacks task_scheduler space sch_rules postprocs mutator_probs
       num_threads =
     bind_io (emit (Log_working_directory work_dir)) (\<lambda>_.
     bind_io (pure_io (extract_task_from_relay x irmod target params)) (\<lambda>extracted_tasks.
     bind_io (pure_io (Parse_target x target)) (\<lambda>target1.
     bind_io (Parse_database database task_name work_dir) (\<lambda>database1.
     bind_io (pure_io (parse_tune_contexts x [] extracted_tasks target1 config
                         space sch_rules postprocs mutator_probs num_threads))
       (\<lambda>tune_contexts.
     bind_io (emit (Log_before_deduplication (length tune_contexts))) (\<lambda>_.
     bind_io (return_io (deduplication x tune_contexts)) (\<lambda>tasks.
     bind_io (emit (Log_after_deduplication (length tasks))) (\<lambda>_.
       schedule_and_tune x task_scheduler tasks builder runner database1 cost_model
         measure_callbacks
         (\<lambda>task_scheduler1.
            bind_io (emit (Relay_build irmod target1 params database1)) (\<lambda>_.
              pure_io (relay_build x irmod target1 params database1)))))))))))"
  by (simp add: tune_relay_def schedule_and_tune_def)

lemma tune_relay_rand_state:
  assumes "Tune s \<in> set (fst (tune_relay x irmod target config work_dir params task_name
      builder runner database cost_model measure_callbacks task_scheduler space sch_rules
      postprocs mutator_probs num_threads))"
    and "tc \<in> set (scheduler_tasks s)"
  shows "tc_rand_state tc = - 1"
proof -
  let ?run = "tune_relay x irmod target config work_dir params task_name
      builder runner database cost_model measure_callbacks task_scheduler space sch_rules
      postprocs mutator_probs num_threads"
  have tuned: "s \<in> set (tuned (fst ?run))"
    using assms(1) by (simp add: Tune_in_set)
  obtain extracted where extracted: "extract_task_from_relay x irmod target params = Inr extracted"
    using tuned by (cases "extract_task_from_relay x irmod target params")
      (auto simp: tune_relay_unfold bind_io_simps)
  obtain target1 where target1: "Parse_target x target = Inr target1"
    using tuned extracted by (cases "Parse_target x target")
      (auto simp: tune_relay_unfold bind_io_simps)
  obtain es database1 where db: "Parse_database database task_name work_dir = (es, Inr database1)"
      "quiet es"
    using tuned extracted target1
    by (cases rule: Parse_database_cases [of database task_name work_dir])
       (auto simp: tune_relay_unfold bind_io_simps)
  obtain tcs where tcs: "parse_tune_contexts x [] extracted target1 config
                         space sch_rules postprocs mutator_probs num_threads = Inr tcs"
    using tuned extracted target1 db
    by (cases "parse_tune_contexts x [] extracted target1 config
                         space sch_rules postprocs mutator_probs num_threads")
       (auto simp: tune_relay_unfold bind_io_simps quiet_def tuned_append)
  let ?f = "\<lambda>task_scheduler1 :: task_scheduler.
            bind_io (emit (Relay_build irmod target1 params database1)) (\<lambda>_.
              pure_io (relay_build x irmod target1 params database1))"
  let ?S = "schedule_and_tune x task_scheduler (deduplication x tcs) builder runner database1
              cost_model measure_callbacks ?f"
  have run: "tuned (fst ?run) = tuned (fst ?S)"
    using extracted target1 db tcs
    by (simp add: tune_relay_unfold bind_io_simps quiet_def tuned_append)
  have "set (scheduler_tasks s) \<subseteq> set (deduplication x tcs)"
  proof (cases rule: schedule_and_tune_cases [of x task_scheduler "deduplication x tcs" builder
            runner database1 cost_model measure_callbacks ?f])
    case (setup_failed e)
    with tuned run show ?thesis by simp
  next
    case (tune_raised ts e)
    with tuned run show ?thesis by simp
  next
    case (tune_returned ts)
    with tuned run show ?thesis
      by (simp add: tuned_append bind_io_simps fst_pure_io)
  qed
  then have "tc \<in> set tcs"
    using assms(2) set_deduplication_loop [of x "[]" tcs] by (auto simp: deduplication_def)
  with parse_tune_contexts_rand_state [OF tcs] show ?thesis
    by simp
qed

text \<open>
  C10: a context built by \<^verbatim>\<open>Parse._tune_context\<close> when none is given has the random state
  \<open>-1\<close>, whatever the other arguments are, and so has every context of every scheduler
  that \<^verbatim>\<open>tune_tir\<close>, \<^verbatim>\<open>tune_te\<close> or \<^verbatim>\<open>tune_relay\<close> runs: no argument of the entry points reaches
  it.
\<close>

theorem rand_state_fixed:
  "(Parse_tune_context x NoContext irmod1 target1 config task_name space sch_rules postprocs
      mutator_probs num_threads = Inr tc \<longrightarrow> tc_rand_state tc = - 1) \<and>
   (\<forall>s \<in> set (tuned (fst (tune_tir x irmod target config work_dir task_name builder runner
        database cost_model measure_callbacks task_scheduler space sch_rules postprocs
        mutator_probs num_threads))).
      \<forall>c \<in> set (scheduler_tasks s). tc_rand_state c = - 1) \<and>
   (\<forall>s \<in> set (tuned (fst (tune_te x tensors target config work_dir task_name builder runner
        database cost_model measure_callbacks task_scheduler space sch_rules postprocs
        mutator_probs num_threads))).
      \<forall>c \<in> set (scheduler_tasks s). tc_rand_state c = - 1) \<and>
   (\<forall>s \<in> set (tuned (fst (tune_relay x irmod target config work_dir params task_name builder
        runner database cost_model measure_callbacks task_scheduler space sch_rules
        postprocs mutator_probs num_threads))).
      \<forall>c \<in> set (scheduler_tasks s). tc_rand_state c = - 1)"
proof (intro conjI impI ballI)
  assume "Parse_tune_context x NoContext irmod1 target1 config task_name space sch_rules
      postprocs mutator_probs num_threads = Inr tc"
  then show "tc_rand_state tc = - 1"
    by (rule Parse_tune_context_rand_state)
next
  fix s c
  assume "s \<in> set (tuned (fst (tune_tir x irmod target config work_dir task_name builder
        runner database cost_model measure_callbacks task_scheduler space sch_rules postprocs
        mutator_probs num_threads)))"
    and "c \<in> set (scheduler_tasks s)"
  then show "tc_rand_state c = - 1"
    unfolding Tune_in_set [symmetric] by (rule tune_tir_rand_state)
next
  fix s c
  assume "s \<in> set (tuned (fst (tune_te x tensors target config work_dir task_name builder
        runner database cost_model measure_callbacks task_scheduler space sch_rules postprocs
        mutator_probs num_threads)))"
    and "c \<in> set (scheduler_tasks s)"
  then show "tc_rand_state c = - 1"
    unfolding Tune_in_set [symmetric] by (rule tune_te_rand_state)
next
  fix s c
  assume "s \<in> set (tuned (fst (tune_relay x irmod target config work_dir params task_name
        builder runner database cost_model measure_callbacks task_scheduler space sch_rules
        postprocs mutator_probs num_threads)))"
    and "c \<in> set (scheduler_tasks s)"
  then show "tc_rand_state c = - 1"
    unfolding Tune_in_set [symmetric] by (rule tune_relay_rand_state)
qed

theorem rand_state_fixed_witness:
  "Parse_tune_context sample_ext NoContext [(''main'', kernel 1)]
      \<lparr>kind_name = ''llvm'', target_options = ''''\<rparr> sample_config ''main'' PyNone PyNone
      PyNone PyNone PyNone = Inr (sample_context ''main'' 1) \<and>
   tc_rand_state (sample_context ''main'' 1) = - 1 \<and>
   map (\<lambda>s. map tc_rand_state (scheduler_tasks s)) (tuned (fst (sample_tune_tir sample_ext))) =
     [[- 1]] \<and>
   map (\<lambda>s. map tc_rand_state (scheduler_tasks s)) (tuned (fst (sample_tune_te sample_ext))) =
     [[- 1]] \<and>
   map (\<lambda>s. map tc_rand_state (scheduler_tasks s))
     (tuned (fst (sample_tune_relay sample_ext))) = [[- 1, - 1, - 1, - 1, - 1]]"
proof -
  have p: "Parse_tune_context sample_ext NoContext [(''main'', kernel 1)]
      \<lparr>kind_name = ''llvm'', target_options = ''''\<rparr> sample_config ''main'' PyNone PyNone
      PyNone PyNone PyNone = Inr (sample_context ''main'' 1)"
    by (simp add: sample_ext_def run_defs sample_context_def)
  have te: "map (\<lambda>s. map tc_rand_state (scheduler_tasks s))
      (tuned (fst (sample_tune_te sample_ext))) = [[- 1]]"
    by (simp add: sample_tune_te_def tune_te_def tune_tir_def sample_ext_def run_defs)
  from rand_state_fixed [of sample_ext "[(''main'', kernel 1)]"
      "\<lparr>kind_name = ''llvm'', target_options = ''''\<rparr>" sample_config "''main''" PyNone PyNone
      PyNone PyNone PyNone "sample_context ''main'' 1"] p
  have "tc_rand_state (sample_context ''main'' 1) = - 1"
    by blast
  with p te show ?thesis
    by (simp add: sample_tune_tir_run sample_tune_relay_run sample_scheduler_def
          sample_context_def)
qed

end
